theory Spec2Isabelle
  imports Main "HOL-Library.AList"
begin

section \<open>Values, failures and observable effects\<close>

text \<open>
  The dispatch layer of twimp (\<^verbatim>\<open>twimp/dispatch.py\<close>) is modelled by explicit state
  passing. Python values that travel through the layer (decoded AMF arguments, handler
  results) are values of \<open>amf\<close>; tuples and lists are kept apart because
  \<^verbatim>\<open>_remote_handler_cb\<close> tests \<^verbatim>\<open>isinstance(result, (tuple, list))\<close>.
  Stream ids and the transaction ids handed out by the tracker are Python ints (\<open>int\<close>).
  Text that the source builds with a format string is represented by the arguments of
  the format.
\<close>

datatype amf =
    ANone
  | ABool bool
  | ANum int
  | AStr string
  | ATuple "amf list"
  | AList "amf list"
  | AObject "(string \<times> amf) list"

text \<open>Python truth value, as used by \<^verbatim>\<open>if trans_id:\<close>.\<close>

fun truthy :: "amf \<Rightarrow> bool" where
  "truthy ANone = False"
| "truthy (ABool b) = b"
| "truthy (ANum n) = (n \<noteq> 0)"
| "truthy (AStr s) = (s \<noteq> [])"
| "truthy (ATuple xs) = (xs \<noteq> [])"
| "truthy (AList xs) = (xs \<noteq> [])"
| "truthy (AObject kvs) = True"

text \<open>
  Exceptions and Twisted failures. The classes of \<^verbatim>\<open>twimp.error\<close> are not part of the
  file; they are modelled from the spec: a call-result error carries its wire arguments
  (\<^verbatim>\<open>get_error_args()\<close>) and its fatal flag (\<^verbatim>\<open>is_fatal\<close>), the call-aborted signal is a
  class of its own, a command-result error is built from the reply values.
  \<open>OtherError\<close> is any other exception, named by its \<^verbatim>\<open>repr\<close>.
\<close>

datatype failure =
    ConnectionDone
  | ConnectionLostReason string
  | CommandResultError "amf list"
  | CallResultError "amf list" bool
  | CallAbortedException "amf list"
  | ProtocolContractError
  | UnexpectedStatusError amf
  | AlreadyCalledError
  | AlreadyCancelled
  | AlreadyCalled
  | AssertionError string
  | SystemError string string
  | DecoderError string
  | IndexError
  | KeyError
  | OtherError string

text \<open>
  \<^verbatim>\<open>repr(failure.value)\<close>. The model knows the \<^verbatim>\<open>repr\<close> of an exception only where the
  exception is named by it; what Python prints for the exception classes of Twisted, of
  the standard library and of \<^verbatim>\<open>twimp.error\<close> is left unspecified.
\<close>

fun repr_failure :: "failure \<Rightarrow> string" where
  "repr_failure (OtherError s) = s"

text \<open>Shared-object event kinds (\<^verbatim>\<open>const.SO_EVENT_TYPE_*\<close>) and events.\<close>

datatype so_event_type =
    SO_EVENT_TYPE_USE
  | SO_EVENT_TYPE_RELEASE
  | SO_EVENT_TYPE_CHANGE
  | SO_EVENT_TYPE_CLEAR
  | SO_EVENT_TYPE_MESSAGE
  | SO_EVENT_TYPE_DELETE
  | SO_EVENT_TYPE_USE_SUCCESS
  | SO_EVENT_TYPE_OTHER nat

record so_event =
  ev_type :: so_event_type
  ev_data :: string

text \<open>
  Message bodies. The codec is an external collaborator: an encoded body is represented
  by what was handed to the encoder.
\<close>

datatype body =
    Amf "amf list"
  | SoUpdate string "nat list" "so_event list"

datatype msg_type = MSG_COMMAND | MSG_SO

text \<open>What a Deferred is called back with.\<close>

datatype result =
    RValues "amf list"
  | RInfo amf
  | RSharedObject nat
  | RChanged nat string amf
  | RDeleted nat string

text \<open>The handlers bound to command names, and a call scheduled on the reactor.\<close>

datatype command_handler = Command_result | Command_error | Command_onStatus

datatype scheduled =
    CallUnknownCommandType amf nat int "amf list"
  | CallHandlerWrapper command_handler nat int "amf list"

text \<open>
  Logging and the calls made on external collaborators (the muxer, the transport, the
  base class) are recorded, in order, as effects: \<open>Sent\<close> is a call of the muxer's
  \<^verbatim>\<open>sendMessage\<close>, \<open>LoseConnection\<close> a call of \<^verbatim>\<open>transport.loseConnection\<close>.
\<close>

datatype log_level = DEBUG | INFO | WARNING

datatype log_msg =
    LogUnexpectedResult nat int int "amf list"
  | LogUnexpectedError nat int int "amf list"
  | LogUnhandledOnStatus nat int amf
  | LogUnexpectedSharedObject string "so_event list"
  | LogCannotParseEvent string so_event
  | LogDecodeFailed string
  | LogOnChange string amf
  | LogOnDelete string
  | LogRemoteCallAborted failure
  | LogRemoteCallFailure failure
  | LogUnknownMethod amf "amf list"

datatype effect =
    Sent nat msg_type int body
  | LoseConnection
  | Log log_level log_msg
  | Invoked nat scheduled
  | BaseConnectionLost failure

section \<open>State\<close>

datatype call_state = Active | Cancelled | Called

record DelayedCall =
  dc_state :: call_state
  dc_key :: nat
  dc_call :: scheduled

record CancellableCallQueue =
  cq_pending :: "(nat \<times> nat) list"
  cq_next_key :: nat

record DeferredTracker =
  dt_pending :: "(int \<times> (int \<times> nat) list) list"
  dt_next_trans_id :: "int \<rightharpoonup> int"

type_synonym ev_key = "unit option \<times> int"

record StatusEventTracker =
  event_callbacks :: "(ev_key \<times> (string option \<times> nat) list) list"

record SharedObject =
  so_id :: nat
  so_name :: string
  so_readyd :: nat
  so_deleted :: nat
  so_changed :: nat
  so_persistance :: bool

text \<open>
  One connection: the fields of the protocol object, the Deferred objects it created
  (\<open>fired d\<close> is the result a Deferred was called with, \<open>None\<close> while it is not called),
  the reactor's delayed calls, and the effects so far. Python dictionaries that the code
  iterates over are association lists (Python 2 fixes no iteration order; no theorem
  below depends on one), the others are maps.
\<close>

record world =
  cc_queue :: CancellableCallQueue
  call_tracker :: DeferredTracker
  shared_objs :: "string \<rightharpoonup> SharedObject"
  events :: StatusEventTracker
  fired :: "nat \<rightharpoonup> failure + result"
  next_deferred :: nat
  next_object :: nat
  delayed_calls :: "nat \<rightharpoonup> DelayedCall"
  next_delayed :: nat
  effects :: "effect list"

definition init_world :: world where
  "init_world = \<lparr>
     cc_queue = \<lparr>cq_pending = [], cq_next_key = 0\<rparr>,
     call_tracker = \<lparr>dt_pending = [], dt_next_trans_id = Map.empty\<rparr>,
     shared_objs = Map.empty,
     events = \<lparr>event_callbacks = []\<rparr>,
     fired = Map.empty,
     next_deferred = 0,
     next_object = 0,
     delayed_calls = Map.empty,
     next_delayed = 0,
     effects = []\<rparr>"

section \<open>Deferreds and external collaborators\<close>

text \<open>
  \<^verbatim>\<open>defer.Deferred()\<close>, \<^verbatim>\<open>d.callback(v)\<close> and \<^verbatim>\<open>d.errback(f)\<close>: calling a Deferred that was
  already called raises \<^verbatim>\<open>AlreadyCalledError\<close> and changes nothing. A function that can
  raise returns \<open>Some e\<close> for the exception \<open>e\<close> together with the state it leaves.
\<close>

definition new_deferred :: "world \<Rightarrow> nat \<times> world" where
  "new_deferred w = (next_deferred w, w\<lparr>next_deferred := Suc (next_deferred w)\<rparr>)"

definition d_callback :: "nat \<Rightarrow> result \<Rightarrow> world \<Rightarrow> failure option \<times> world" where
  "d_callback d v w =
     (case fired w d of
        None \<Rightarrow> (None, w\<lparr>fired := (fired w)(d \<mapsto> Inr v)\<rparr>)
      | Some _ \<Rightarrow> (Some AlreadyCalledError, w))"

definition d_errback :: "nat \<Rightarrow> failure \<Rightarrow> world \<Rightarrow> failure option \<times> world" where
  "d_errback d f w =
     (case fired w d of
        None \<Rightarrow> (None, w\<lparr>fired := (fired w)(d \<mapsto> Inl f)\<rparr>)
      | Some _ \<Rightarrow> (Some AlreadyCalledError, w))"

definition emit :: "effect \<Rightarrow> world \<Rightarrow> world" where
  "emit e w = w\<lparr>effects := effects w @ [e]\<rparr>"

definition sendMessage :: "nat \<Rightarrow> msg_type \<Rightarrow> int \<Rightarrow> body \<Rightarrow> world \<Rightarrow> world" where
  "sendMessage ts mt ms_id b w = emit (Sent ts mt ms_id b) w"

definition encode_amf :: "amf list \<Rightarrow> body" where
  "encode_amf args = Amf args"

section \<open>DeferredTracker\<close>

definition init_trans_id :: int where
  "init_trans_id = 1"

definition next_trans :: "int \<Rightarrow> DeferredTracker \<Rightarrow> int \<times> DeferredTracker" where
  "next_trans key t =
     (let trans_id = (case dt_next_trans_id t key of None \<Rightarrow> init_trans_id | Some n \<Rightarrow> n)
      in (trans_id, t\<lparr>dt_next_trans_id := (dt_next_trans_id t)(key \<mapsto> trans_id + 1)\<rparr>))"

definition push_deferred :: "int \<Rightarrow> int \<Rightarrow> nat \<Rightarrow> DeferredTracker \<Rightarrow> DeferredTracker" where
  "push_deferred key trans_id d t =
     (let key_queue = (case map_of (dt_pending t) key of None \<Rightarrow> [] | Some q \<Rightarrow> q)
      in t\<lparr>dt_pending := AList.update key (AList.update trans_id d key_queue) (dt_pending t)\<rparr>)"

definition pop_deferred :: "int \<Rightarrow> int \<Rightarrow> DeferredTracker \<Rightarrow> nat option \<times> DeferredTracker" where
  "pop_deferred key trans_id t =
     (case map_of (dt_pending t) key of
        None \<Rightarrow> (None, t)
      | Some key_queue \<Rightarrow>
          if key_queue \<noteq> []
          then (map_of key_queue trans_id,
                t\<lparr>dt_pending := AList.update key (AList.delete trans_id key_queue) (dt_pending t)\<rparr>)
          else (None, t))"

definition iter_all :: "DeferredTracker \<Rightarrow> (int \<times> nat) list" where
  "iter_all t = concat (map (\<lambda>(key, key_queue). map (\<lambda>(trans_id, d). (key, d)) key_queue) (dt_pending t))"

definition dt_clear :: "DeferredTracker \<Rightarrow> DeferredTracker" where
  "dt_clear t = t\<lparr>dt_pending := []\<rparr>"

definition dt_reset :: "DeferredTracker \<Rightarrow> DeferredTracker" where
  "dt_reset t = t\<lparr>dt_next_trans_id := Map.empty\<rparr>"

section \<open>StatusEventTracker\<close>

text \<open>
  The waiters of a key are a deque of \<^verbatim>\<open>(code, Deferred)\<close> pairs; the expected code is a
  status-code string, or \<open>None\<close> for the wildcard.
\<close>

definition se_add :: "ev_key \<Rightarrow> string option \<Rightarrow> nat \<Rightarrow> StatusEventTracker \<Rightarrow> StatusEventTracker" where
  "se_add key code d t =
     (let q = (case map_of (event_callbacks t) key of None \<Rightarrow> [] | Some q \<Rightarrow> q)
      in t\<lparr>event_callbacks := AList.update key (q @ [(code, d)]) (event_callbacks t)\<rparr>)"

definition se_pop :: "ev_key \<Rightarrow> StatusEventTracker \<Rightarrow> (string option \<times> nat option) \<times> StatusEventTracker" where
  "se_pop key t =
     (case map_of (event_callbacks t) key of
        None \<Rightarrow> ((None, None), t)
      | Some q \<Rightarrow>
          (case q of
             [] \<Rightarrow> ((None, None), t)
           | (code, d) # rest \<Rightarrow>
               ((code, Some d), t\<lparr>event_callbacks := AList.update key rest (event_callbacks t)\<rparr>)))"

definition pop_all :: "StatusEventTracker \<Rightarrow> (string option \<times> nat) list \<times> StatusEventTracker" where
  "pop_all t = (concat (map snd (event_callbacks t)), t\<lparr>event_callbacks := []\<rparr>)"

definition se_wait :: "ev_key \<Rightarrow> string option \<Rightarrow> world \<Rightarrow> nat \<times> world" where
  "se_wait key code w =
     (let (d, w1) = new_deferred w
      in (d, w1\<lparr>events := se_add key code d (events w1)\<rparr>))"

text \<open>A loop of \<^verbatim>\<open>d.errback(reason)\<close>: the first exception ends it.\<close>

fun errback_each :: "nat list \<Rightarrow> failure \<Rightarrow> world \<Rightarrow> failure option \<times> world" where
  "errback_each [] reason w = (None, w)"
| "errback_each (d # ds) reason w =
     (case d_errback d reason w of
        (Some e, w1) \<Rightarrow> (Some e, w1)
      | (None, w1) \<Rightarrow> errback_each ds reason w1)"

definition se_cancel_all :: "failure option \<Rightarrow> world \<Rightarrow> failure option \<times> world" where
  "se_cancel_all reason w =
     (let (waiting, t) = pop_all (events w);
          w1 = w\<lparr>events := t\<rparr>
      in case reason of
           None \<Rightarrow> (None, w1)
         | Some r \<Rightarrow> errback_each (map snd waiting) r w1)"

text \<open>\<^verbatim>\<open>info.code\<close>: only an object with a \<^verbatim>\<open>code\<close> attribute has one.\<close>

fun attr_code :: "amf \<Rightarrow> amf option" where
  "attr_code (AObject kvs) = map_of kvs ''code''"
| "attr_code _ = None"

definition dispatch :: "ev_key \<Rightarrow> amf \<Rightarrow> (world \<Rightarrow> world) option \<Rightarrow> world \<Rightarrow> failure option \<times> world" where
  "dispatch key info miss_h w =
     (let ((code, d), t) = se_pop key (events w);
          w1 = w\<lparr>events := t\<rparr>
      in case d of
           None \<Rightarrow> (case miss_h of None \<Rightarrow> (None, w1) | Some h \<Rightarrow> (None, h w1))
         | Some d \<Rightarrow>
             (case attr_code info of
                None \<Rightarrow> d_errback d ProtocolContractError w1
              | Some evt_code \<Rightarrow>
                  if code = None \<or> Some evt_code = map_option AStr code
                  then d_callback d (RInfo info) w1
                  else d_errback d (UnexpectedStatusError info) w1))"

section \<open>CancellableCallQueue and the reactor\<close>

text \<open>
  \<^verbatim>\<open>reactor.callLater\<close> creates a delayed call; the reactor later runs it unless it was
  cancelled (\<open>reactor_run\<close>, Twisted's contract). Running it is
  \<^verbatim>\<open>_call_wrapper(call_key, f, args, kw)\<close>; the invocation \<^verbatim>\<open>f(*args, **kw)\<close> is recorded
  as the effect \<open>Invoked\<close>, and what the invoked handlers do is modelled by their own
  functions below.
\<close>

definition callLater :: "nat \<Rightarrow> scheduled \<Rightarrow> world \<Rightarrow> (nat \<times> nat) \<times> world" where
  "callLater delay f w =
     (let q = cc_queue w;
          call_key = cq_next_key q;
          clid = next_delayed w
      in ((call_key, clid),
          w\<lparr>delayed_calls := (delayed_calls w)(clid \<mapsto> \<lparr>dc_state = Active, dc_key = call_key, dc_call = f\<rparr>),
            next_delayed := Suc clid,
            cc_queue := \<lparr>cq_pending = AList.update call_key clid (cq_pending q),
                         cq_next_key = call_key + 1\<rparr>\<rparr>))"

definition dc_active :: "nat \<Rightarrow> world \<Rightarrow> bool" where
  "dc_active clid w = (case delayed_calls w clid of Some c \<Rightarrow> dc_state c = Active | None \<Rightarrow> False)"

definition dc_cancel :: "nat \<Rightarrow> world \<Rightarrow> failure option \<times> world" where
  "dc_cancel clid w =
     (case delayed_calls w clid of
        None \<Rightarrow> (Some AlreadyCancelled, w)
      | Some c \<Rightarrow>
          (case dc_state c of
             Active \<Rightarrow> (None, w\<lparr>delayed_calls := (delayed_calls w)(clid \<mapsto> c\<lparr>dc_state := Cancelled\<rparr>)\<rparr>)
           | Cancelled \<Rightarrow> (Some AlreadyCancelled, w)
           | Called \<Rightarrow> (Some AlreadyCalled, w)))"

definition cq_cancel :: "nat \<Rightarrow> nat \<Rightarrow> world \<Rightarrow> failure option \<times> world" where
  "cq_cancel call_key clid w =
     dc_cancel clid
       (w\<lparr>cc_queue := (cc_queue w)\<lparr>cq_pending := AList.delete call_key (cq_pending (cc_queue w))\<rparr>\<rparr>)"

definition call_wrapper :: "nat \<Rightarrow> nat \<Rightarrow> scheduled \<Rightarrow> world \<Rightarrow> failure option \<times> world" where
  "call_wrapper clid call_key f w =
     (case map_of (cq_pending (cc_queue w)) call_key of
        None \<Rightarrow> (Some KeyError, w)
      | Some _ \<Rightarrow>
          (None, emit (Invoked clid f)
             (w\<lparr>cc_queue := (cc_queue w)\<lparr>cq_pending := AList.delete call_key (cq_pending (cc_queue w))\<rparr>\<rparr>)))"

fun cancel_each :: "nat list \<Rightarrow> world \<Rightarrow> failure option \<times> world" where
  "cancel_each [] w = (None, w)"
| "cancel_each (clid # cs) w =
     (if dc_active clid w
      then (case dc_cancel clid w of
              (Some e, w1) \<Rightarrow> (Some e, w1)
            | (None, w1) \<Rightarrow> cancel_each cs w1)
      else cancel_each cs w)"

definition cq_cancel_all :: "world \<Rightarrow> failure option \<times> world" where
  "cq_cancel_all w =
     (let remaining = cq_pending (cc_queue w);
          w1 = w\<lparr>cc_queue := (cc_queue w)\<lparr>cq_pending := []\<rparr>\<rparr>
      in cancel_each (map snd remaining) w1)"

definition reactor_run :: "nat \<Rightarrow> world \<Rightarrow> failure option \<times> world" where
  "reactor_run clid w =
     (case delayed_calls w clid of
        None \<Rightarrow> (None, w)
      | Some c \<Rightarrow>
          if dc_state c = Active
          then call_wrapper clid (dc_key c) (dc_call c)
                 (w\<lparr>delayed_calls := (delayed_calls w)(clid \<mapsto> c\<lparr>dc_state := Called\<rparr>)\<rparr>)
          else (None, w))"

section \<open>SharedObject\<close>

text \<open>
  The decoders of \<^verbatim>\<open>twimp.amf0\<close> are external: they are parameters.
  \<^verbatim>\<open>decode_so_event_change_data\<close> returns the decoded items or a \<^verbatim>\<open>DecoderError\<close> (\<open>Inl\<close>).
\<close>

record codec =
  decode_so_event_change_data :: "string \<Rightarrow> string + (string \<times> amf) list"
  decode_string :: "string \<Rightarrow> failure + string"

definition new_SharedObject :: "string \<Rightarrow> bool \<Rightarrow> world \<Rightarrow> SharedObject \<times> world" where
  "new_SharedObject name persistance w =
     (let (r, w1) = new_deferred w;
          (dl, w2) = new_deferred w1;
          (c, w3) = new_deferred w2
      in (\<lparr>so_id = next_object w3, so_name = name, so_readyd = r, so_deleted = dl,
           so_changed = c, so_persistance = persistance\<rparr>,
          w3\<lparr>next_object := Suc (next_object w3)\<rparr>))"

definition unhandledEvent :: "SharedObject \<Rightarrow> so_event \<Rightarrow> world \<Rightarrow> world" where
  "unhandledEvent so event w = emit (Log WARNING (LogCannotParseEvent (so_name so) event)) w"

definition onChange :: "SharedObject \<Rightarrow> string \<Rightarrow> amf \<Rightarrow> world \<Rightarrow> failure option \<times> SharedObject \<times> world" where
  "onChange so key_name val w =
     (let w1 = emit (Log DEBUG (LogOnChange key_name val)) w;
          d = so_changed so;
          (n, w2) = new_deferred w1;
          so1 = so\<lparr>so_changed := n\<rparr>
      in case d_callback d (RChanged n key_name val) w2 of (e, w3) \<Rightarrow> (e, so1, w3))"

definition onChangeRaw :: "codec \<Rightarrow> SharedObject \<Rightarrow> string \<Rightarrow> world \<Rightarrow> failure option \<times> SharedObject \<times> world" where
  "onChangeRaw cd so event w =
     (case decode_so_event_change_data cd event of
        Inl e \<Rightarrow> (None, so, emit (Log WARNING (LogDecodeFailed e)) w)
      | Inr change_dict \<Rightarrow>
          (case change_dict of
             [] \<Rightarrow> (Some IndexError, so, w)
           | (key, val) # _ \<Rightarrow> onChange so key val w))"

definition onClear :: "SharedObject \<Rightarrow> string \<Rightarrow> world \<Rightarrow> failure option \<times> SharedObject \<times> world" where
  "onClear so event w =
     (if length event = 0 then (None, so, w)
      else (Some (AssertionError ''Event data of clear must be empty''), so, w))"

definition onDelete :: "SharedObject \<Rightarrow> string \<Rightarrow> world \<Rightarrow> failure option \<times> SharedObject \<times> world" where
  "onDelete so key_name w =
     (let w1 = emit (Log DEBUG (LogOnDelete key_name)) w;
          d = so_deleted so;
          (n, w2) = new_deferred w1;
          so1 = so\<lparr>so_deleted := n\<rparr>
      in case d_callback d (RDeleted n key_name) w2 of (e, w3) \<Rightarrow> (e, so1, w3))"

definition onDeleteRaw :: "codec \<Rightarrow> SharedObject \<Rightarrow> string \<Rightarrow> world \<Rightarrow> failure option \<times> SharedObject \<times> world" where
  "onDeleteRaw cd so event w =
     (if length event \<noteq> 0
      then (case decode_string cd event of
              Inl e \<Rightarrow> (Some e, so, w)
            | Inr key_name \<Rightarrow> onDelete so key_name w)
      else (Some (AssertionError ''Cannot call onDelete without data''), so, w))"

definition onMessage :: "SharedObject \<Rightarrow> string \<Rightarrow> world \<Rightarrow> failure option \<times> SharedObject \<times> world" where
  "onMessage so event w = (None, so, w)"

definition onUseSuccess :: "SharedObject \<Rightarrow> string \<Rightarrow> world \<Rightarrow> failure option \<times> SharedObject \<times> world" where
  "onUseSuccess so event w =
     (if length event = 0
      then (case d_callback (so_readyd so) (RSharedObject (so_id so)) w of (e, w1) \<Rightarrow> (e, so, w1))
      else (Some (AssertionError ''Event data of success must be empty''), so, w))"

definition onEvent :: "codec \<Rightarrow> SharedObject \<Rightarrow> so_event \<Rightarrow> world \<Rightarrow> failure option \<times> SharedObject \<times> world" where
  "onEvent cd so event w =
     (case ev_type event of
        SO_EVENT_TYPE_CHANGE \<Rightarrow> onChangeRaw cd so (ev_data event) w
      | SO_EVENT_TYPE_CLEAR \<Rightarrow> onClear so (ev_data event) w
      | SO_EVENT_TYPE_MESSAGE \<Rightarrow> onMessage so (ev_data event) w
      | SO_EVENT_TYPE_DELETE \<Rightarrow> onDeleteRaw cd so (ev_data event) w
      | SO_EVENT_TYPE_USE_SUCCESS \<Rightarrow> onUseSuccess so (ev_data event) w
      | _ \<Rightarrow> (None, so, unhandledEvent so event w))"

section \<open>CommandDispatchProtocol\<close>

fun getattr_command :: "amf \<Rightarrow> command_handler option" where
  "getattr_command (AStr s) =
     (if s = ''_result'' then Some Command_result
      else if s = ''_error'' then Some Command_error
      else if s = ''onStatus'' then Some Command_onStatus
      else None)"
| "getattr_command _ = None"

definition doCommand :: "nat \<Rightarrow> int \<Rightarrow> amf list \<Rightarrow> world \<Rightarrow> failure option \<times> world" where
  "doCommand ts ms_id args w =
     (case args of
        [] \<Rightarrow> (Some IndexError, w)
      | cmd # rest \<Rightarrow>
          (case getattr_command cmd of
             None \<Rightarrow> (None, snd (callLater 0 (CallUnknownCommandType cmd ts ms_id rest) w))
           | Some handler_m \<Rightarrow> (None, snd (callLater 0 (CallHandlerWrapper handler_m ts ms_id rest) w))))"

definition unknownSharedObject :: "nat \<Rightarrow> int \<Rightarrow> string \<Rightarrow> so_event list \<Rightarrow> world \<Rightarrow> world" where
  "unknownSharedObject ts ms_id obj_name evs w = emit (Log WARNING (LogUnexpectedSharedObject obj_name evs)) w"

text \<open>
  The loop of \<^verbatim>\<open>doSharedObj\<close>: the object is mutated in place, so the registry entry
  follows every event; an exception ends the loop.
\<close>

fun onEvents :: "codec \<Rightarrow> string \<Rightarrow> SharedObject \<Rightarrow> so_event list \<Rightarrow> world \<Rightarrow> failure option \<times> world" where
  "onEvents cd obj_name so [] w = (None, w)"
| "onEvents cd obj_name so (e # es) w =
     (case onEvent cd so e w of
        (Some x, so1, w1) \<Rightarrow> (Some x, w1\<lparr>shared_objs := (shared_objs w1)(obj_name \<mapsto> so1)\<rparr>)
      | (None, so1, w1) \<Rightarrow> onEvents cd obj_name so1 es (w1\<lparr>shared_objs := (shared_objs w1)(obj_name \<mapsto> so1)\<rparr>))"

definition doSharedObj :: "codec \<Rightarrow> nat \<Rightarrow> int \<Rightarrow> string \<Rightarrow> so_event list \<Rightarrow> world \<Rightarrow> failure option \<times> world" where
  "doSharedObj cd ts ms_id obj_name evs w =
     (case shared_objs w obj_name of
        None \<Rightarrow> (None, unknownSharedObject ts ms_id obj_name evs w)
      | Some so \<Rightarrow> onEvents cd obj_name so evs w)"

definition unexpectedCallResult :: "nat \<Rightarrow> int \<Rightarrow> int \<Rightarrow> amf list \<Rightarrow> world \<Rightarrow> world" where
  "unexpectedCallResult ts ms_id trans_id args w = emit (Log WARNING (LogUnexpectedResult ts ms_id trans_id args)) w"

definition unexpectedCallError :: "nat \<Rightarrow> int \<Rightarrow> int \<Rightarrow> amf list \<Rightarrow> world \<Rightarrow> world" where
  "unexpectedCallError ts ms_id trans_id args w = emit (Log WARNING (LogUnexpectedError ts ms_id trans_id args)) w"

definition command__result :: "nat \<Rightarrow> int \<Rightarrow> int \<Rightarrow> amf list \<Rightarrow> world \<Rightarrow> failure option \<times> world" where
  "command__result ts ms_id trans_id args w =
     (let (d, t) = pop_deferred ms_id trans_id (call_tracker w);
          w1 = w\<lparr>call_tracker := t\<rparr>
      in case d of
           Some d \<Rightarrow> d_callback d (RValues args) w1
         | None \<Rightarrow> (None, unexpectedCallResult ts ms_id trans_id args w1))"

definition command__error :: "nat \<Rightarrow> int \<Rightarrow> int \<Rightarrow> amf list \<Rightarrow> world \<Rightarrow> failure option \<times> world" where
  "command__error ts ms_id trans_id args w =
     (let (d, t) = pop_deferred ms_id trans_id (call_tracker w);
          w1 = w\<lparr>call_tracker := t\<rparr>
      in case d of
           Some d \<Rightarrow> d_errback d (CommandResultError args) w1
         | None \<Rightarrow> (None, unexpectedCallError ts ms_id trans_id args w1))"

text \<open>
  \<^verbatim>\<open>DispatchProtocol.connectionLost\<close> belongs to \<^verbatim>\<open>twimp.proto\<close>; the call is recorded.
\<close>

definition CommandDispatchProtocol_connectionLost :: "failure \<Rightarrow> world \<Rightarrow> failure option \<times> world" where
  "CommandDispatchProtocol_connectionLost reason w =
     (case cq_cancel_all w of
        (Some e, w1) \<Rightarrow> (Some e, w1)
      | (None, w1) \<Rightarrow>
          (let pending_calls = iter_all (call_tracker w1);
               w2 = w1\<lparr>call_tracker := dt_clear (call_tracker w1)\<rparr>
           in case errback_each (map snd pending_calls) reason w2 of
                (Some e, w3) \<Rightarrow> (Some e, w3)
              | (None, w3) \<Rightarrow> (None, emit (BaseConnectionLost reason) w3)))"

definition send_command :: "nat \<Rightarrow> int \<Rightarrow> body \<Rightarrow> int \<Rightarrow> world \<Rightarrow> nat option \<times> world" where
  "send_command ts ms_id b track_id w =
     (let (d, w1) =
            (if track_id \<noteq> 0
             then (let (d, w0) = new_deferred w
                   in (Some d, w0\<lparr>call_tracker := push_deferred ms_id track_id d (call_tracker w0)\<rparr>))
             else (None, w))
      in (d, sendMessage 0 MSG_COMMAND ms_id b w1))"

definition sendRemote :: "int \<Rightarrow> amf \<Rightarrow> amf list \<Rightarrow> bool \<Rightarrow> world \<Rightarrow> nat option \<times> world" where
  "sendRemote ms_id cmd args track w =
     (let (trans_id, w1) =
            (if track
             then (let (r, t) = next_trans ms_id (call_tracker w) in (r, w\<lparr>call_tracker := t\<rparr>))
             else (0, w));
          encoded_args = encode_amf (cmd # ANum trans_id # args)
      in send_command 0 ms_id encoded_args trans_id w1)"

definition callRemote :: "int \<Rightarrow> amf \<Rightarrow> amf list \<Rightarrow> world \<Rightarrow> nat option \<times> world" where
  "callRemote ms_id cmd args w = sendRemote ms_id cmd args True w"

definition signalRemote :: "int \<Rightarrow> amf \<Rightarrow> amf list \<Rightarrow> world \<Rightarrow> nat option \<times> world" where
  "signalRemote ms_id cmd args w = sendRemote ms_id cmd args False w"

text \<open>
  \<^verbatim>\<open>useSharedObject\<close> and \<^verbatim>\<open>releaseSharedObject\<close> are \<^verbatim>\<open>inlineCallbacks\<close> generators. The
  model runs the generator until it raises (the returned future has failed), returns,
  or is left waiting for a Deferred it yielded. \<open>now\<close> is
  \<^verbatim>\<open>ms_time_wrapped(self.session_time())\<close>.

  Both generators yield what the muxer's \<^verbatim>\<open>sendMessage\<close> gives back, so here the outcome
  of that call is part of the control flow and is a parameter: the call returns (with no
  Deferred to wait for, the first \<^verbatim>\<open>yield\<close> does not wait), or it raises, and the
  exception ends the generator at that line. The call is recorded in both cases.
\<close>

datatype 'a generator = Raised failure | Awaiting nat | Returned 'a

datatype muxer_reply = Accepted | Refused failure

definition encode_so_update :: "string \<Rightarrow> nat list \<Rightarrow> so_event list \<Rightarrow> body" where
  "encode_so_update obj_name flags evs = SoUpdate obj_name flags evs"

definition so_flags :: "bool \<Rightarrow> nat list" where
  "so_flags persistance = (if persistance then [0, 0, 0, 2, 0, 0, 0, 0] else [0, 0, 0, 0, 0, 0, 0, 0])"

definition useSharedObject ::
  "int \<Rightarrow> string \<Rightarrow> bool \<Rightarrow> nat \<Rightarrow> muxer_reply \<Rightarrow> world \<Rightarrow> unit generator \<times> world" where
  "useSharedObject ms_id obj_name persistance now reply w =
     (if shared_objs w obj_name \<noteq> None
      then (Raised (SystemError ''Shared object %s already in use'' obj_name), w)
      else (let evs = [\<lparr>ev_type = SO_EVENT_TYPE_USE, ev_data = []\<rparr>];
                b = encode_so_update obj_name (so_flags persistance) evs;
                (so, w1) = new_SharedObject obj_name persistance w;
                w2 = w1\<lparr>shared_objs := (shared_objs w1)(obj_name \<mapsto> so)\<rparr>;
                w3 = sendMessage now MSG_SO ms_id b w2
            in case reply of
                 Refused f \<Rightarrow> (Raised f, w3)
               | Accepted \<Rightarrow> (Awaiting (so_readyd so), w3)))"

definition releaseSharedObject ::
  "int \<Rightarrow> string \<Rightarrow> nat \<Rightarrow> muxer_reply \<Rightarrow> world \<Rightarrow> unit generator \<times> world" where
  "releaseSharedObject ms_id obj_name now reply w =
     (case shared_objs w obj_name of
        None \<Rightarrow> (Raised (SystemError ''Shared object %s does not exists'' obj_name), w)
      | Some so \<Rightarrow>
          (let evs = [\<lparr>ev_type = SO_EVENT_TYPE_RELEASE, ev_data = []\<rparr>];
               b = encode_so_update obj_name (so_flags (so_persistance so)) evs;
               w1 = w\<lparr>shared_objs := (shared_objs w)(obj_name := None)\<rparr>;
               w2 = sendMessage now MSG_SO ms_id b w1
           in case reply of
                Refused f \<Rightarrow> (Raised f, w2)
              | Accepted \<Rightarrow> (Returned (), w2)))"

section \<open>EventDispatchProtocol\<close>

definition onStatus_ev_key :: "int \<Rightarrow> ev_key" where
  "onStatus_ev_key ms_id = (None, ms_id)"

definition waitStatus :: "int \<Rightarrow> string option \<Rightarrow> world \<Rightarrow> nat \<times> world" where
  "waitStatus ms_id code w = se_wait (onStatus_ev_key ms_id) code w"

definition unhandledOnStatus :: "nat \<Rightarrow> int \<Rightarrow> amf \<Rightarrow> world \<Rightarrow> world" where
  "unhandledOnStatus ts ms_id info w = emit (Log WARNING (LogUnhandledOnStatus ts ms_id info)) w"

definition command_onStatus :: "nat \<Rightarrow> int \<Rightarrow> amf \<Rightarrow> amf \<Rightarrow> amf \<Rightarrow> world \<Rightarrow> failure option \<times> world" where
  "command_onStatus ts ms_id trans_id none info w =
     dispatch (onStatus_ev_key ms_id) info (Some (unhandledOnStatus ts ms_id info)) w"

definition EventDispatchProtocol_connectionLost :: "failure \<Rightarrow> world \<Rightarrow> failure option \<times> world" where
  "EventDispatchProtocol_connectionLost reason w =
     (case se_cancel_all (Some reason) w of
        (Some e, w1) \<Rightarrow> (Some e, w1)
      | (None, w1) \<Rightarrow> CommandDispatchProtocol_connectionLost reason w1)"

section \<open>CallDispatchProtocol\<close>

text \<open>
  A registered remote method (\<^verbatim>\<open>remote_<cmd>\<close>) is application code: it is a parameter,
  known by its outcome, a value or a failure (\<^verbatim>\<open>maybeDeferred\<close> turns an exception into a
  failure). The callbacks added to the Deferred run in the order they were added, each on
  the outcome the one before it left: a callback on a value, an errback on a failure.
  Every callback of this class returns \<^verbatim>\<open>None\<close>.
\<close>

type_synonym remote_handler = "nat \<Rightarrow> int \<Rightarrow> amf list \<Rightarrow> failure + amf"

definition unknownRemoteCall :: "amf \<Rightarrow> nat \<Rightarrow> int \<Rightarrow> amf list \<Rightarrow> world \<Rightarrow> (failure + amf) \<times> world" where
  "unknownRemoteCall cmd ts ms_id args w =
     (Inl (CallAbortedException [cmd]), emit (Log WARNING (LogUnknownMethod cmd args)) w)"

definition remote_abort_handler_eb :: "failure \<Rightarrow> world \<Rightarrow> (failure + amf) \<times> world" where
  "remote_abort_handler_eb f w =
     (case f of
        CallAbortedException _ \<Rightarrow> (Inr ANone, emit (Log DEBUG (LogRemoteCallAborted f)) w)
      | _ \<Rightarrow> (Inl f, w))"

definition remote_handler_cb :: "amf \<Rightarrow> int \<Rightarrow> amf \<Rightarrow> nat \<Rightarrow> world \<Rightarrow> (failure + amf) \<times> world" where
  "remote_handler_cb res ms_id trans_id now w =
     (let res1 = (case res of ATuple xs \<Rightarrow> xs | AList xs \<Rightarrow> xs | _ \<Rightarrow> [res]);
          b = encode_amf (AStr ''_result'' # trans_id # res1)
      in (Inr ANone, sendMessage now MSG_COMMAND ms_id b w))"

definition remote_handler_eb :: "failure \<Rightarrow> int \<Rightarrow> amf \<Rightarrow> nat \<Rightarrow> world \<Rightarrow> (failure + amf) \<times> world" where
  "remote_handler_eb f ms_id trans_id now w =
     (let w1 = emit (Log INFO (LogRemoteCallFailure f)) w;
          (b, fatal) =
            (case f of
               CallResultError error_args is_fatal \<Rightarrow>
                 (encode_amf (AStr ''_error'' # trans_id # error_args), is_fatal)
             | _ \<Rightarrow>
                 (let err = AObject [(''code'', AStr ''NetStream.Failed''),
                                     (''level'', AStr ''error''),
                                     (''description'', AStr (repr_failure f))]
                  in (encode_amf [AStr ''_error'', trans_id, ANone, err], False)));
          w2 = sendMessage now MSG_COMMAND ms_id b w1
      in (Inr ANone, if fatal then emit LoseConnection w2 else w2))"

definition unknownCommandType ::
  "(amf \<Rightarrow> remote_handler option) \<Rightarrow> amf \<Rightarrow> nat \<Rightarrow> int \<Rightarrow> amf list \<Rightarrow> nat \<Rightarrow> world \<Rightarrow> failure option \<times> world" where
  "unknownCommandType handlers cmd ts ms_id args now w =
     (case args of
        [] \<Rightarrow> (Some IndexError, w)
      | trans_id # rest \<Rightarrow>
          (let (r0, w0) = (case handlers cmd of
                             None \<Rightarrow> unknownRemoteCall cmd ts ms_id rest w
                           | Some handler_m \<Rightarrow> (handler_m ts ms_id rest, w));
               (r1, w1) = (if truthy trans_id
                           then (case r0 of
                                   Inr v \<Rightarrow> remote_handler_cb v ms_id trans_id now w0
                                 | Inl f \<Rightarrow> (Inl f, w0))
                           else (r0, w0));
               (r2, w2) = (case r1 of
                             Inl f \<Rightarrow> remote_abort_handler_eb f w1
                           | Inr v \<Rightarrow> (Inr v, w1));
               (r3, w3) = (case r2 of
                             Inl f \<Rightarrow> remote_handler_eb f ms_id trans_id now w2
                           | Inr v \<Rightarrow> (Inr v, w2))
           in (None, w3)))"

section \<open>Histories of one connection\<close>

text \<open>
  What can happen to a connection, one event at a time: a message arrives, the reactor
  runs a delayed call, a scheduled handler runs, the application calls the layer, the
  connection is lost. An exception in one event leaves the state it had reached.
\<close>

datatype op =
    DoCommand nat int "amf list"
  | DoSharedObj nat int string "so_event list"
  | ReactorRun nat
  | Handle_result nat int int "amf list"
  | Handle_error nat int int "amf list"
  | Handle_onStatus nat int amf amf amf
  | Handle_unknown amf nat int "amf list" nat
  | CallRemote int amf "amf list"
  | SignalRemote int amf "amf list"
  | WaitStatus int "string option"
  | UseSharedObject int string bool nat muxer_reply
  | ReleaseSharedObject int string nat muxer_reply
  | ConnectionLost failure

fun step :: "codec \<Rightarrow> (amf \<Rightarrow> remote_handler option) \<Rightarrow> op \<Rightarrow> world \<Rightarrow> world" where
  "step cd hs (DoCommand ts ms_id args) w = snd (doCommand ts ms_id args w)"
| "step cd hs (DoSharedObj ts ms_id obj_name evs) w = snd (doSharedObj cd ts ms_id obj_name evs w)"
| "step cd hs (ReactorRun clid) w = snd (reactor_run clid w)"
| "step cd hs (Handle_result ts ms_id trans_id args) w = snd (command__result ts ms_id trans_id args w)"
| "step cd hs (Handle_error ts ms_id trans_id args) w = snd (command__error ts ms_id trans_id args w)"
| "step cd hs (Handle_onStatus ts ms_id trans_id none info) w = snd (command_onStatus ts ms_id trans_id none info w)"
| "step cd hs (Handle_unknown cmd ts ms_id args now) w = snd (unknownCommandType hs cmd ts ms_id args now w)"
| "step cd hs (CallRemote ms_id cmd args) w = snd (callRemote ms_id cmd args w)"
| "step cd hs (SignalRemote ms_id cmd args) w = snd (signalRemote ms_id cmd args w)"
| "step cd hs (WaitStatus ms_id code) w = snd (waitStatus ms_id code w)"
| "step cd hs (UseSharedObject ms_id obj_name persistance now reply) w =
     snd (useSharedObject ms_id obj_name persistance now reply w)"
| "step cd hs (ReleaseSharedObject ms_id obj_name now reply) w =
     snd (releaseSharedObject ms_id obj_name now reply w)"
| "step cd hs (ConnectionLost reason) w = snd (EventDispatchProtocol_connectionLost reason w)"

fun run :: "codec \<Rightarrow> (amf \<Rightarrow> remote_handler option) \<Rightarrow> op list \<Rightarrow> world \<Rightarrow> world" where
  "run cd hs [] w = w"
| "run cd hs (x # xs) w = run cd hs xs (step cd hs x w)"

section \<open>Notions used in the statements\<close>

text \<open>The Deferred that the tracker holds for a stream and a transaction id, if any.\<close>

definition pending_entry :: "DeferredTracker \<Rightarrow> int \<Rightarrow> int \<Rightarrow> nat option" where
  "pending_entry t key trans_id =
     (case map_of (dt_pending t) key of None \<Rightarrow> None | Some key_queue \<Rightarrow> map_of key_queue trans_id)"

text \<open>
  End-to-end example of the spec: on a fresh connection the client calls
  \<^verbatim>\<open>callRemote(3, "play", "stream1")\<close>.
\<close>

definition w_play :: world where
  "w_play = snd (callRemote 3 (AStr ''play'') [AStr ''stream1''] init_world)"

text \<open>The waiters queued for a key, oldest first.\<close>

definition waiters :: "StatusEventTracker \<Rightarrow> ev_key \<Rightarrow> (string option \<times> nat) list" where
  "waiters t key = (case map_of (event_callbacks t) key of None \<Rightarrow> [] | Some q \<Rightarrow> q)"

text \<open>
  What \<^verbatim>\<open>dispatch\<close> calls a popped waiter with, as a function of the waiter's expected
  code and of the event (lines 229 to 237 of the source).
\<close>

definition status_outcome :: "string option \<Rightarrow> amf \<Rightarrow> failure + result" where
  "status_outcome code info =
     (case attr_code info of
        None \<Rightarrow> Inl ProtocolContractError
      | Some evt_code \<Rightarrow>
          if code = None \<or> Some evt_code = map_option AStr code then Inr (RInfo info)
          else Inl (UnexpectedStatusError info))"

text \<open>Further examples: a wildcard waiter on stream 5, a shared object in use, handlers.\<close>

definition w_wait :: world where
  "w_wait = snd (waitStatus 5 None init_world)"

definition w_use :: world where
  "w_use = snd (useSharedObject 1 ''so'' False 0 Accepted init_world)"

definition so0 :: SharedObject where
  "so0 = \<lparr>so_id = 0, so_name = ''so'', so_readyd = 0, so_deleted = 1, so_changed = 2,
          so_persistance = False\<rparr>"

definition use_success :: so_event where
  "use_success = \<lparr>ev_type = SO_EVENT_TYPE_USE_SUCCESS, ev_data = []\<rparr>"

definition example_codec :: codec where
  "example_codec = \<lparr>decode_so_event_change_data = (\<lambda>s. Inr [(s, ANone)]), decode_string = (\<lambda>s. Inr s)\<rparr>"

definition example_handlers :: "amf \<Rightarrow> remote_handler option" where
  "example_handlers cmd =
     (if cmd = AStr ''play'' then Some (\<lambda>ts ms_id args. Inr (AStr ''ok''))
      else if cmd = AStr ''list'' then Some (\<lambda>ts ms_id args. Inr (AList [ANum 1, ANum 2]))
      else if cmd = AStr ''deny'' then Some (\<lambda>ts ms_id args. Inl (CallResultError [ANone, AStr ''denied''] True))
      else if cmd = AStr ''skip'' then Some (\<lambda>ts ms_id args. Inl (CallAbortedException []))
      else if cmd = AStr ''boom'' then Some (\<lambda>ts ms_id args. Inl (OtherError ''ValueError()''))
      else None)"

text \<open>Deferreds that are not allocated yet have not been called.\<close>

definition fresh_deferreds :: "world \<Rightarrow> bool" where
  "fresh_deferreds w \<longleftrightarrow> (\<forall>d. next_deferred w \<le> d \<longrightarrow> fired w d = None)"

text \<open>
  The next transaction id of a stream, and the tracked calls of a history on a stream.
\<close>

definition next_counter :: "DeferredTracker \<Rightarrow> int \<Rightarrow> int" where
  "next_counter t s = (case dt_next_trans_id t s of None \<Rightarrow> init_trans_id | Some n \<Rightarrow> n)"

fun calls_on :: "int \<Rightarrow> op \<Rightarrow> bool" where
  "calls_on s (CallRemote ms_id cmd args) = (ms_id = s)"
| "calls_on s _ = False"

text \<open>Every tracked transaction id of a stream is below the stream's next id.\<close>

definition ids_below :: "world \<Rightarrow> bool" where
  "ids_below w \<longleftrightarrow>
     (\<forall>s t d. pending_entry (call_tracker w) s t = Some d \<longrightarrow> t < next_counter (call_tracker w) s)"

text \<open>The events of a history that release a shared-object name.\<close>

fun releases :: "string \<Rightarrow> op \<Rightarrow> bool" where
  "releases n (ReleaseSharedObject ms_id obj_name now reply) = (obj_name = n)"
| "releases n _ = False"

section \<open>Facts about the trackers\<close>

lemma pop_deferred_fst: "fst (pop_deferred s t tr) = pending_entry tr s t"
  by (auto simp: pop_deferred_def pending_entry_def split: option.splits)

lemma pop_deferred_miss: "pending_entry tr s t = None \<Longrightarrow> snd (pop_deferred s t tr) = tr"
  apply (auto simp: pop_deferred_def pending_entry_def split: option.splits)
  apply (subst AList.delete_id)
   apply (simp add: map_of_eq_None_iff)
  apply (simp add: AList.update_triv)
  done

lemma pending_entry_pop:
  "pending_entry (snd (pop_deferred s t tr)) s' t' =
     (if s' = s \<and> t' = t then None else pending_entry tr s' t')"
  by (auto simp: pop_deferred_def pending_entry_def AList.update_conv' AList.delete_conv' split: option.splits)

lemma dt_next_pop: "dt_next_trans_id (snd (pop_deferred s t tr)) = dt_next_trans_id tr"
  by (auto simp: pop_deferred_def split: option.splits)

lemma pending_entry_push:
  "pending_entry (push_deferred s t d tr) s' t' =
     (if s' = s \<and> t' = t then Some d else pending_entry tr s' t')"
  by (auto simp: push_deferred_def pending_entry_def AList.update_conv' split: option.splits)

lemma pending_entry_clear [simp]: "pending_entry (dt_clear tr) s t = None"
  by (simp add: dt_clear_def pending_entry_def)

lemma next_counter_simps [simp]:
  "next_counter (snd (pop_deferred s t tr)) = next_counter tr"
  "next_counter (dt_clear tr) = next_counter tr"
  "next_counter (push_deferred s t d tr) = next_counter tr"
  by (auto simp: next_counter_def dt_next_pop dt_clear_def push_deferred_def fun_eq_iff)

lemma next_counter_next_trans:
  "fst (next_trans s tr) = next_counter tr s"
  "next_counter (snd (next_trans s tr)) s' = (if s' = s then next_counter tr s + 1 else next_counter tr s')"
  by (auto simp: next_trans_def next_counter_def Let_def)

lemma pending_entry_next_trans [simp]:
  "pending_entry (snd (next_trans s tr)) = pending_entry tr"
  by (auto simp: next_trans_def pending_entry_def Let_def fun_eq_iff)

lemma callRemote_eq:
  "callRemote s cmd args w =
     (let n = next_counter (call_tracker w) s;
          d = next_deferred w
      in (if n \<noteq> 0 then Some d else None,
          w\<lparr>call_tracker := (if n \<noteq> 0 then push_deferred s n d (snd (next_trans s (call_tracker w)))
                              else snd (next_trans s (call_tracker w))),
            next_deferred := (if n \<noteq> 0 then Suc d else d),
            effects := effects w @ [Sent 0 MSG_COMMAND s (encode_amf (cmd # ANum n # args))]\<rparr>))"
  using next_counter_next_trans(1)[of s "call_tracker w"]
  by (auto simp: callRemote_def sendRemote_def send_command_def new_deferred_def sendMessage_def
      emit_def Let_def split: prod.splits)

lemma signalRemote_eq:
  "signalRemote s cmd args w =
     (None, w\<lparr>effects := effects w @ [Sent 0 MSG_COMMAND s (encode_amf (cmd # ANum 0 # args))]\<rparr>)"
  by (simp add: signalRemote_def sendRemote_def send_command_def sendMessage_def emit_def)

subsection \<open>What the loops and the teardown preserve\<close>

lemma errback_each_pres:
  assumes "\<And>w m. P w \<Longrightarrow> P (w\<lparr>fired := m\<rparr>)"
  shows "P w \<Longrightarrow> P (snd (errback_each ds r w))"
  by (induction ds r w rule: errback_each.induct)
     (simp_all add: d_errback_def assms split: option.splits)

lemma cancel_each_pres:
  assumes "\<And>w clid c. P w \<Longrightarrow> delayed_calls w clid = Some c \<Longrightarrow> dc_state c = Active \<Longrightarrow>
             P (w\<lparr>delayed_calls := (delayed_calls w)(clid \<mapsto> c\<lparr>dc_state := Cancelled\<rparr>)\<rparr>)"
  shows "P w \<Longrightarrow> P (snd (cancel_each cs w))"
  by (induction cs w rule: cancel_each.induct)
     (simp_all add: dc_cancel_def dc_active_def assms split: option.splits call_state.splits)

lemma onEvent_pres:
  assumes "\<And>w m. P w \<Longrightarrow> P (w\<lparr>fired := m\<rparr>)"
    and "\<And>w l m. P w \<Longrightarrow> P (w\<lparr>effects := effects w @ [Log l m]\<rparr>)"
    and "\<And>w m. P w \<Longrightarrow> P (w\<lparr>next_deferred := m\<rparr>)"
  shows "P w \<Longrightarrow> P (snd (snd (onEvent cd so e w)))"
  by (simp add: onEvent_def onChangeRaw_def onChange_def onClear_def onMessage_def
      onDeleteRaw_def onDelete_def onUseSuccess_def unhandledEvent_def emit_def new_deferred_def
      d_callback_def Let_def assms
      split: so_event_type.splits sum.splits list.splits prod.splits option.splits)

lemma onEvents_pres:
  assumes "\<And>so e w. P w \<Longrightarrow> P (snd (snd (onEvent cd so e w)))"
    and "\<And>w so. P w \<Longrightarrow> P (w\<lparr>shared_objs := (shared_objs w)(n \<mapsto> so)\<rparr>)"
  shows "P w \<Longrightarrow> P (snd (onEvents cd n so es w))"
proof (induction es arbitrary: so w)
  case Nil
  then show ?case by simp
next
  case (Cons e es)
  obtain r so1 w1 where o: "onEvent cd so e w = (r, so1, w1)" by (cases "onEvent cd so e w") auto
  have fr: "P w1" using assms(1)[of w so e] Cons.prems by (simp add: o)
  have fr2: "P (w1\<lparr>shared_objs := (shared_objs w1)(n \<mapsto> so1)\<rparr>)" using fr by (rule assms(2))
  show ?case
  proof (cases r)
    case None
    then show ?thesis using o Cons.IH[OF fr2] by simp
  next
    case (Some x)
    then show ?thesis using o fr2 by simp
  qed
qed

lemma CommandDispatchProtocol_connectionLost_pres:
  assumes fi: "\<And>w m. P w \<Longrightarrow> P (w\<lparr>fired := m\<rparr>)"
    and dc: "\<And>w clid c. P w \<Longrightarrow> delayed_calls w clid = Some c \<Longrightarrow> dc_state c = Active \<Longrightarrow>
           P (w\<lparr>delayed_calls := (delayed_calls w)(clid \<mapsto> c\<lparr>dc_state := Cancelled\<rparr>)\<rparr>)"
    and cq: "\<And>w. P w \<Longrightarrow> P (w\<lparr>cc_queue := (cc_queue w)\<lparr>cq_pending := []\<rparr>\<rparr>)"
    and ct: "\<And>w. P w \<Longrightarrow> P (w\<lparr>call_tracker := dt_clear (call_tracker w)\<rparr>)"
    and ef: "\<And>w. P w \<Longrightarrow> P (w\<lparr>effects := effects w @ [BaseConnectionLost r]\<rparr>)"
    and p: "P w"
  shows "P (snd (CommandDispatchProtocol_connectionLost r w))"
proof -
  let ?wa = "w\<lparr>cc_queue := (cc_queue w)\<lparr>cq_pending := []\<rparr>\<rparr>"
  let ?cs = "map snd (cq_pending (cc_queue w))"
  obtain e1 w1 where c: "cancel_each ?cs ?wa = (e1, w1)"
    by (cases "cancel_each ?cs ?wa") auto
  have "P ?wa" using p by (rule cq)
  then have "P (snd (cancel_each ?cs ?wa))" by (rule cancel_each_pres[rotated]) (rule dc)
  then have f1: "P w1" by (simp only: c snd_conv)
  let ?wb = "w1\<lparr>call_tracker := dt_clear (call_tracker w1)\<rparr>"
  let ?ds = "map snd (iter_all (call_tracker w1))"
  obtain e2 w2 where d: "errback_each ?ds r ?wb = (e2, w2)"
    by (cases "errback_each ?ds r ?wb") auto
  have "P ?wb" using f1 by (rule ct)
  then have "P (snd (errback_each ?ds r ?wb))" by (rule errback_each_pres[rotated]) (rule fi)
  then have f2: "P w2" by (simp only: d snd_conv)
  have f3: "P (w2\<lparr>effects := effects w2 @ [BaseConnectionLost r]\<rparr>)" using f2 by (rule ef)
  have eq: "snd (CommandDispatchProtocol_connectionLost r w) =
      (case e1 of Some x \<Rightarrow> w1 | None \<Rightarrow>
         (case e2 of Some y \<Rightarrow> w2 | None \<Rightarrow> w2\<lparr>effects := effects w2 @ [BaseConnectionLost r]\<rparr>))"
    using c d
    by (simp add: CommandDispatchProtocol_connectionLost_def cq_cancel_all_def emit_def Let_def
        split: option.splits)
  show ?thesis
    unfolding eq using f1 f2 f3 by (cases e1; cases e2) (simp_all only: option.case)
qed

lemma EventDispatchProtocol_connectionLost_pres:
  assumes fi: "\<And>w m. P w \<Longrightarrow> P (w\<lparr>fired := m\<rparr>)"
    and dc: "\<And>w clid c. P w \<Longrightarrow> delayed_calls w clid = Some c \<Longrightarrow> dc_state c = Active \<Longrightarrow>
           P (w\<lparr>delayed_calls := (delayed_calls w)(clid \<mapsto> c\<lparr>dc_state := Cancelled\<rparr>)\<rparr>)"
    and cq: "\<And>w. P w \<Longrightarrow> P (w\<lparr>cc_queue := (cc_queue w)\<lparr>cq_pending := []\<rparr>\<rparr>)"
    and ct: "\<And>w. P w \<Longrightarrow> P (w\<lparr>call_tracker := dt_clear (call_tracker w)\<rparr>)"
    and ef: "\<And>w. P w \<Longrightarrow> P (w\<lparr>effects := effects w @ [BaseConnectionLost r]\<rparr>)"
    and ev: "\<And>w. P w \<Longrightarrow> P (w\<lparr>events := (events w)\<lparr>event_callbacks := []\<rparr>\<rparr>)"
    and p: "P w"
  shows "P (snd (EventDispatchProtocol_connectionLost r w))"
proof -
  let ?wa = "w\<lparr>events := (events w)\<lparr>event_callbacks := []\<rparr>\<rparr>"
  let ?ds = "map snd (concat (map snd (event_callbacks (events w))))"
  obtain e1 w1 where c: "errback_each ?ds r ?wa = (e1, w1)"
    by (cases "errback_each ?ds r ?wa") auto
  have "P ?wa" using p by (rule ev)
  then have "P (snd (errback_each ?ds r ?wa))" by (rule errback_each_pres[rotated]) (rule fi)
  then have f1: "P w1" by (simp only: c snd_conv)
  have f2: "P (snd (CommandDispatchProtocol_connectionLost r w1))"
    using fi dc cq ct ef f1 by (rule CommandDispatchProtocol_connectionLost_pres)
  have eq: "snd (EventDispatchProtocol_connectionLost r w) =
      (case e1 of Some x \<Rightarrow> w1 | None \<Rightarrow> snd (CommandDispatchProtocol_connectionLost r w1))"
    using c
    by (simp add: EventDispatchProtocol_connectionLost_def se_cancel_all_def pop_all_def Let_def
        split: option.splits)
  show ?thesis
    unfolding eq using f1 f2 by (cases e1) (simp_all only: option.case)
qed

subsection \<open>The transaction counters along a history\<close>

lemma onEvents_call_tracker [simp]: "call_tracker (snd (onEvents cd n so es w)) = call_tracker w"
  by (rule onEvents_pres[where P="\<lambda>w'. call_tracker w' = call_tracker w"];
      (rule onEvent_pres)?; simp)

lemma connectionLost_tracker:
  "call_tracker (snd (EventDispatchProtocol_connectionLost r w)) = call_tracker w
   \<or> call_tracker (snd (EventDispatchProtocol_connectionLost r w)) = dt_clear (call_tracker w)"
  by (rule EventDispatchProtocol_connectionLost_pres
        [where P="\<lambda>w'. call_tracker w' = call_tracker w \<or> call_tracker w' = dt_clear (call_tracker w)"])
     (auto simp: dt_clear_def)

lemma step_call_tracker:
  "call_tracker (step cd hs x w) =
     (case x of
        CallRemote s cmd args \<Rightarrow> call_tracker (snd (callRemote s cmd args w))
      | Handle_result ts s t args \<Rightarrow> snd (pop_deferred s t (call_tracker w))
      | Handle_error ts s t args \<Rightarrow> snd (pop_deferred s t (call_tracker w))
      | ConnectionLost r \<Rightarrow> call_tracker (snd (EventDispatchProtocol_connectionLost r w))
      | _ \<Rightarrow> call_tracker w)"
  apply (cases x)
  apply (simp_all add: doCommand_def callLater_def doSharedObj_def unknownSharedObject_def emit_def
      reactor_run_def call_wrapper_def command__result_def command__error_def d_callback_def d_errback_def
      unexpectedCallResult_def unexpectedCallError_def command_onStatus_def dispatch_def
      unhandledOnStatus_def unknownCommandType_def unknownRemoteCall_def remote_handler_cb_def
      remote_abort_handler_eb_def remote_handler_eb_def sendMessage_def signalRemote_eq
      waitStatus_def se_wait_def new_deferred_def useSharedObject_def new_SharedObject_def
      releaseSharedObject_def Let_def
      split: list.splits option.splits prod.splits sum.splits failure.splits if_splits
        muxer_reply.splits)
  done

lemma step_next_counter:
  "next_counter (call_tracker (step cd hs x w)) s =
     next_counter (call_tracker w) s + (if calls_on s x then 1 else 0)"
proof (cases x)
  case (ConnectionLost r)
  then show ?thesis using connectionLost_tracker[of r w] by (auto simp: step_call_tracker simp del: step.simps)
next
  case (CallRemote s' cmd args)
  then show ?thesis by (simp add: step_call_tracker callRemote_eq Let_def next_counter_next_trans del: step.simps)
qed (simp_all add: step_call_tracker del: step.simps)

lemma run_next_counter:
  "next_counter (call_tracker (run cd hs xs w)) s =
     next_counter (call_tracker w) s + int (length (filter (calls_on s) xs))"
  by (induction xs arbitrary: w) (simp_all add: step_next_counter)

lemma step_ids_below: "ids_below w \<Longrightarrow> ids_below (step cd hs x w)"
proof (cases x)
  case (ConnectionLost r)
  assume "ids_below w"
  then show ?thesis using connectionLost_tracker[of r w] ConnectionLost
    by (auto simp: ids_below_def)
next
  case (CallRemote s' cmd args)
  assume "ids_below w"
  then show ?thesis using CallRemote
    by (auto simp: ids_below_def callRemote_eq Let_def next_counter_next_trans pending_entry_push
        split: if_splits) force+
next
  case (Handle_result ts s' t' args)
  assume "ids_below w"
  then show ?thesis using Handle_result
    by (auto simp: ids_below_def step_call_tracker pending_entry_pop simp del: step.simps split: if_splits)
next
  case (Handle_error ts s' t' args)
  assume "ids_below w"
  then show ?thesis using Handle_error
    by (auto simp: ids_below_def step_call_tracker pending_entry_pop simp del: step.simps split: if_splits)
qed (simp_all add: ids_below_def step_call_tracker del: step.simps)

lemma run_ids_below: "ids_below w \<Longrightarrow> ids_below (run cd hs xs w)"
  by (induction xs arbitrary: w) (simp_all add: step_ids_below)

lemma init_ids_below: "ids_below init_world"
  by (simp add: ids_below_def init_world_def pending_entry_def)

lemma init_next_counter: "next_counter (call_tracker init_world) s = 1"
  by (simp add: next_counter_def init_world_def init_trans_id_def)

section \<open>Replies to tracked calls\<close>

lemma result_hit:
  assumes "pending_entry (call_tracker w) s t = Some d" "fired w d = None"
  shows "command__result ts s t args w =
           (None, w\<lparr>call_tracker := snd (pop_deferred s t (call_tracker w)),
                    fired := (fired w)(d \<mapsto> Inr (RValues args))\<rparr>)"
  using assms pop_deferred_fst[of s t "call_tracker w"]
  by (auto simp: command__result_def d_callback_def split: prod.splits option.splits)

lemma result_miss:
  assumes "pending_entry (call_tracker w) s t = None"
  shows "command__result ts s t args w =
           (None, w\<lparr>effects := effects w @ [Log WARNING (LogUnexpectedResult ts s t args)]\<rparr>)"
  using assms pop_deferred_fst[of s t "call_tracker w"] pop_deferred_miss[of "call_tracker w" s t]
  by (auto simp: command__result_def unexpectedCallResult_def emit_def split: prod.splits option.splits)

lemma error_hit:
  assumes "pending_entry (call_tracker w) s t = Some d" "fired w d = None"
  shows "command__error ts s t args w =
           (None, w\<lparr>call_tracker := snd (pop_deferred s t (call_tracker w)),
                    fired := (fired w)(d \<mapsto> Inl (CommandResultError args))\<rparr>)"
  using assms pop_deferred_fst[of s t "call_tracker w"]
  by (auto simp: command__error_def d_errback_def split: prod.splits option.splits)

lemma error_miss:
  assumes "pending_entry (call_tracker w) s t = None"
  shows "command__error ts s t args w =
           (None, w\<lparr>effects := effects w @ [Log WARNING (LogUnexpectedError ts s t args)]\<rparr>)"
  using assms pop_deferred_fst[of s t "call_tracker w"] pop_deferred_miss[of "call_tracker w" s t]
  by (auto simp: command__error_def unexpectedCallError_def emit_def split: prod.splits option.splits)

text \<open>
  C1. A \<^verbatim>\<open>_result\<close> (a \<^verbatim>\<open>_error\<close>) reply on stream \<open>s\<close> with transaction id \<open>t\<close>: when the
  tracker holds a not yet called future \<open>d\<close> for \<open>(s, t)\<close>, \<^verbatim>\<open>command__result\<close> returns
  normally, calls \<open>d\<close> back with the reply values (\<^verbatim>\<open>command__error\<close> fails it with the
  command-result error built from the values), emits no diagnostic and removes the
  entry and no other, so that a second \<^verbatim>\<open>_result\<close> or \<^verbatim>\<open>_error\<close> for \<open>(s, t)\<close> only emits
  the unexpected-result (unexpected-error) diagnostic and leaves \<open>d\<close> as it was called.
  When the tracker holds no entry for \<open>(s, t)\<close>, the call returns normally and the only
  change of the whole state is that one diagnostic.
\<close>

theorem reply_resolves_pending_entry_once:
  "(pending_entry (call_tracker w) s t = Some d \<and> fired w d = None \<longrightarrow>
      (\<exists>w1. command__result ts s t args w = (None, w1)
          \<and> fired w1 = (fired w)(d \<mapsto> Inr (RValues args))
          \<and> effects w1 = effects w
          \<and> (\<forall>s' t'. pending_entry (call_tracker w1) s' t' =
                       (if s' = s \<and> t' = t then None else pending_entry (call_tracker w) s' t'))
          \<and> command__result ts2 s t args2 w1 =
              (None, w1\<lparr>effects := effects w1 @ [Log WARNING (LogUnexpectedResult ts2 s t args2)]\<rparr>)
          \<and> command__error ts2 s t args2 w1 =
              (None, w1\<lparr>effects := effects w1 @ [Log WARNING (LogUnexpectedError ts2 s t args2)]\<rparr>))
    \<and> (\<exists>w1. command__error ts s t args w = (None, w1)
          \<and> fired w1 = (fired w)(d \<mapsto> Inl (CommandResultError args))
          \<and> effects w1 = effects w
          \<and> (\<forall>s' t'. pending_entry (call_tracker w1) s' t' =
                       (if s' = s \<and> t' = t then None else pending_entry (call_tracker w) s' t'))
          \<and> command__result ts2 s t args2 w1 =
              (None, w1\<lparr>effects := effects w1 @ [Log WARNING (LogUnexpectedResult ts2 s t args2)]\<rparr>)
          \<and> command__error ts2 s t args2 w1 =
              (None, w1\<lparr>effects := effects w1 @ [Log WARNING (LogUnexpectedError ts2 s t args2)]\<rparr>)))
   \<and> (pending_entry (call_tracker w) s t = None \<longrightarrow>
        command__result ts s t args w =
          (None, w\<lparr>effects := effects w @ [Log WARNING (LogUnexpectedResult ts s t args)]\<rparr>)
      \<and> command__error ts s t args w =
          (None, w\<lparr>effects := effects w @ [Log WARNING (LogUnexpectedError ts s t args)]\<rparr>))"
proof (intro conjI impI)
  assume h: "pending_entry (call_tracker w) s t = Some d \<and> fired w d = None"
  let ?t1 = "snd (pop_deferred s t (call_tracker w))"
  let ?w1 = "w\<lparr>call_tracker := ?t1, fired := (fired w)(d \<mapsto> Inr (RValues args))\<rparr>"
  have gone: "pending_entry (call_tracker ?w1) s t = None"
    by (simp add: pending_entry_pop)
  show "\<exists>w1. command__result ts s t args w = (None, w1)
          \<and> fired w1 = (fired w)(d \<mapsto> Inr (RValues args))
          \<and> effects w1 = effects w
          \<and> (\<forall>s' t'. pending_entry (call_tracker w1) s' t' =
                       (if s' = s \<and> t' = t then None else pending_entry (call_tracker w) s' t'))
          \<and> command__result ts2 s t args2 w1 =
              (None, w1\<lparr>effects := effects w1 @ [Log WARNING (LogUnexpectedResult ts2 s t args2)]\<rparr>)
          \<and> command__error ts2 s t args2 w1 =
              (None, w1\<lparr>effects := effects w1 @ [Log WARNING (LogUnexpectedError ts2 s t args2)]\<rparr>)"
    apply (rule exI[of _ ?w1])
    using h result_hit[of w s t d ts args] result_miss[OF gone] error_miss[OF gone]
    by (simp add: pending_entry_pop)
  let ?w2 = "w\<lparr>call_tracker := ?t1, fired := (fired w)(d \<mapsto> Inl (CommandResultError args))\<rparr>"
  have gone2: "pending_entry (call_tracker ?w2) s t = None"
    by (simp add: pending_entry_pop)
  show "\<exists>w1. command__error ts s t args w = (None, w1)
          \<and> fired w1 = (fired w)(d \<mapsto> Inl (CommandResultError args))
          \<and> effects w1 = effects w
          \<and> (\<forall>s' t'. pending_entry (call_tracker w1) s' t' =
                       (if s' = s \<and> t' = t then None else pending_entry (call_tracker w) s' t'))
          \<and> command__result ts2 s t args2 w1 =
              (None, w1\<lparr>effects := effects w1 @ [Log WARNING (LogUnexpectedResult ts2 s t args2)]\<rparr>)
          \<and> command__error ts2 s t args2 w1 =
              (None, w1\<lparr>effects := effects w1 @ [Log WARNING (LogUnexpectedError ts2 s t args2)]\<rparr>)"
    apply (rule exI[of _ ?w2])
    using h error_hit[of w s t d ts args] result_miss[OF gone2] error_miss[OF gone2]
    by (simp add: pending_entry_pop)
next
  assume "pending_entry (call_tracker w) s t = None"
  then show "command__result ts s t args w =
          (None, w\<lparr>effects := effects w @ [Log WARNING (LogUnexpectedResult ts s t args)]\<rparr>)"
    by (rule result_miss)
next
  assume "pending_entry (call_tracker w) s t = None"
  then show "command__error ts s t args w =
          (None, w\<lparr>effects := effects w @ [Log WARNING (LogUnexpectedError ts s t args)]\<rparr>)"
    by (rule error_miss)
qed

lemmas play_defs =
  w_play_def callRemote_def sendRemote_def next_trans_def send_command_def new_deferred_def
  push_deferred_def init_world_def init_trans_id_def sendMessage_def emit_def encode_amf_def
  Let_def pending_entry_def

theorem reply_resolves_pending_entry_once_witness:
  "pending_entry (call_tracker w_play) 3 1 = Some 0 \<and> fired w_play 0 = None
   \<and> (\<exists>w1. command__result 7 3 1 [AStr ''ok''] w_play = (None, w1)
          \<and> fired w1 0 = Some (Inr (RValues [AStr ''ok''])))
   \<and> pending_entry (call_tracker w_play) 3 2 = None
   \<and> command__result 7 3 2 [AStr ''ok''] w_play =
        (None, w_play\<lparr>effects := effects w_play @ [Log WARNING (LogUnexpectedResult 7 3 2 [AStr ''ok''])]\<rparr>)"
proof -
  have a: "pending_entry (call_tracker w_play) 3 1 = Some 0 \<and> fired w_play 0 = None"
    by (simp add: play_defs)
  have b: "pending_entry (call_tracker w_play) 3 2 = None"
    by (simp add: play_defs)
  from a b reply_resolves_pending_entry_once[of w_play 3 1 0 7 "[AStr ''ok'']" 7 "[AStr ''ok'']"]
    reply_resolves_pending_entry_once[of w_play 3 2 0 7 "[AStr ''ok'']" 7 "[AStr ''ok'']"]
  show ?thesis by auto
qed

section \<open>Status events\<close>

lemma se_pop_empty: "waiters t key = [] \<Longrightarrow> se_pop key t = ((None, None), t)"
  by (auto simp: se_pop_def waiters_def split: option.splits list.splits)

lemma se_pop_cons:
  "waiters t key = (code, d) # rest \<Longrightarrow>
   se_pop key t = ((code, Some d), t\<lparr>event_callbacks := AList.update key rest (event_callbacks t)\<rparr>)"
  by (auto simp: se_pop_def waiters_def split: option.splits list.splits)

lemma waiters_update:
  "waiters (t\<lparr>event_callbacks := AList.update key q (event_callbacks t)\<rparr>) key' =
     (if key' = key then q else waiters t key')"
  by (simp add: waiters_def AList.update_conv')

lemma waiters_add:
  "waiters (se_add key code d t) key' = (if key' = key then waiters t key @ [(code, d)] else waiters t key')"
  by (simp add: se_add_def waiters_def AList.update_conv' split: option.splits)

lemma dispatch_miss:
  "waiters (events w) key = [] \<Longrightarrow> dispatch key info (Some h) w = (None, h w)"
  by (simp add: dispatch_def se_pop_empty)

lemma dispatch_hit:
  assumes "waiters (events w) key = (code, d) # rest" "fired w d = None"
  shows "dispatch key info miss_h w =
     (None, w\<lparr>events := (events w)\<lparr>event_callbacks := AList.update key rest (event_callbacks (events w))\<rparr>,
              fired := (fired w)(d \<mapsto> status_outcome code info)\<rparr>)"
  using assms
  by (auto simp: dispatch_def se_pop_cons d_callback_def d_errback_def status_outcome_def
      split: option.splits)

lemma onStatus_hit:
  assumes "waiters (events w) (onStatus_ev_key s) = (code, d) # rest" "fired w d = None"
  shows "command_onStatus ts s trans_id none info w =
     (None, w\<lparr>events := (events w)\<lparr>event_callbacks :=
                 AList.update (onStatus_ev_key s) rest (event_callbacks (events w))\<rparr>,
              fired := (fired w)(d \<mapsto> status_outcome code info)\<rparr>)"
  using assms by (simp add: command_onStatus_def dispatch_hit)

lemma waitStatus_eq:
  "waitStatus s code w =
     (next_deferred w,
      w\<lparr>next_deferred := Suc (next_deferred w),
        events := se_add (onStatus_ev_key s) code (next_deferred w) (events w)\<rparr>)"
  by (simp add: waitStatus_def se_wait_def new_deferred_def)

lemma key_inj: "onStatus_ev_key a = onStatus_ev_key b \<longleftrightarrow> a = b"
  by (simp add: onStatus_ev_key_def)

lemmas wait_defs =
  w_wait_def waitStatus_eq se_add_def waiters_def onStatus_ev_key_def init_world_def

text \<open>
  C5. On a stream \<open>s\<close> with no waiter queued (and no Deferred called before it is
  created), registering \<open>W1\<close> (expecting \<open>c1\<close>) and then \<open>W2\<close> (expecting
  \<open>c2\<close>) with \<^verbatim>\<open>waitStatus\<close> queues them in that order; the first status event on \<open>s\<close>
  resolves \<open>W1\<close> and only \<open>W1\<close>, with the outcome the event gives against \<open>c1\<close>, and
  leaves \<open>W2\<close> queued; the second resolves \<open>W2\<close> with the outcome the second event gives
  against \<open>c2\<close>, whatever the codes of the two events. Each dispatch pops one waiter, and
  the queues of the other streams are as before.
\<close>

theorem status_waiters_fifo:
  "waiters (events w) (onStatus_ev_key s) = [] \<and> fresh_deferreds w \<longrightarrow>
     (\<exists>d1 w1 d2 w2 w3 w4.
        waitStatus s c1 w = (d1, w1) \<and> waitStatus s c2 w1 = (d2, w2)
      \<and> command_onStatus ts1 s t1 n1 e1 w2 = (None, w3)
      \<and> command_onStatus ts2 s t2 n2 e2 w3 = (None, w4)
      \<and> d1 \<noteq> d2
      \<and> waiters (events w2) (onStatus_ev_key s) = [(c1, d1), (c2, d2)]
      \<and> fired w3 = (fired w)(d1 \<mapsto> status_outcome c1 e1)
      \<and> waiters (events w3) (onStatus_ev_key s) = [(c2, d2)]
      \<and> fired w4 = (fired w)(d1 \<mapsto> status_outcome c1 e1, d2 \<mapsto> status_outcome c2 e2)
      \<and> waiters (events w4) (onStatus_ev_key s) = []
      \<and> (\<forall>s'. s' \<noteq> s \<longrightarrow>
            waiters (events w4) (onStatus_ev_key s') = waiters (events w) (onStatus_ev_key s')))"
proof (intro impI)
  assume h0: "waiters (events w) (onStatus_ev_key s) = [] \<and> fresh_deferreds w"
  then have h: "waiters (events w) (onStatus_ev_key s) = [] \<and> (\<forall>d. next_deferred w \<le> d \<longrightarrow> fired w d = None)"
    by (simp add: fresh_deferreds_def)
  let ?k = "onStatus_ev_key s"
  let ?d1 = "next_deferred w"
  let ?d2 = "Suc (next_deferred w)"
  let ?w1 = "snd (waitStatus s c1 w)"
  let ?w2 = "snd (waitStatus s c2 ?w1)"
  have q2: "waiters (events ?w2) ?k = [(c1, ?d1), (c2, ?d2)]"
    using h by (simp add: waitStatus_eq waiters_add)
  have f2: "fired ?w2 = fired w"
    by (simp add: waitStatus_eq)
  have u1: "fired ?w2 ?d1 = None" using h f2 by simp
  let ?w3 = "snd (command_onStatus ts1 s t1 n1 e1 ?w2)"
  have s3: "command_onStatus ts1 s t1 n1 e1 ?w2 =
     (None, ?w2\<lparr>events := (events ?w2)\<lparr>event_callbacks :=
                 AList.update ?k [(c2, ?d2)] (event_callbacks (events ?w2))\<rparr>,
              fired := (fired ?w2)(?d1 \<mapsto> status_outcome c1 e1)\<rparr>)"
    by (rule onStatus_hit[OF q2 u1])
  have q3: "waiters (events ?w3) ?k = [(c2, ?d2)]"
    by (simp add: s3 waiters_update)
  have f3: "fired ?w3 = (fired w)(?d1 \<mapsto> status_outcome c1 e1)"
    by (simp add: s3 f2)
  have u2: "fired ?w3 ?d2 = None" using h by (simp add: f3)
  let ?w4 = "snd (command_onStatus ts2 s t2 n2 e2 ?w3)"
  have s4: "command_onStatus ts2 s t2 n2 e2 ?w3 =
     (None, ?w3\<lparr>events := (events ?w3)\<lparr>event_callbacks :=
                 AList.update ?k [] (event_callbacks (events ?w3))\<rparr>,
              fired := (fired ?w3)(?d2 \<mapsto> status_outcome c2 e2)\<rparr>)"
    by (rule onStatus_hit[OF q3 u2])
  have q4: "waiters (events ?w4) ?k = []"
    by (simp add: s4 waiters_update)
  have f4: "fired ?w4 = (fired w)(?d1 \<mapsto> status_outcome c1 e1, ?d2 \<mapsto> status_outcome c2 e2)"
    by (simp add: s4 f3)
  have other: "\<forall>s'. s' \<noteq> s \<longrightarrow> waiters (events ?w4) (onStatus_ev_key s') = waiters (events w) (onStatus_ev_key s')"
  proof (intro allI impI)
    fix s' assume ne: "s' \<noteq> s"
    have "waiters (events ?w4) (onStatus_ev_key s') = waiters (events ?w3) (onStatus_ev_key s')"
      using ne by (simp only: s4) (simp add: waiters_update key_inj)
    also have "\<dots> = waiters (events ?w2) (onStatus_ev_key s')"
      using ne by (simp only: s3) (simp add: waiters_update key_inj)
    also have "\<dots> = waiters (events w) (onStatus_ev_key s')"
      using ne by (simp add: waitStatus_eq waiters_add key_inj)
    finally show "waiters (events ?w4) (onStatus_ev_key s') = waiters (events w) (onStatus_ev_key s')" .
  qed
  show "\<exists>d1 w1 d2 w2 w3 w4.
        waitStatus s c1 w = (d1, w1) \<and> waitStatus s c2 w1 = (d2, w2)
      \<and> command_onStatus ts1 s t1 n1 e1 w2 = (None, w3)
      \<and> command_onStatus ts2 s t2 n2 e2 w3 = (None, w4)
      \<and> d1 \<noteq> d2
      \<and> waiters (events w2) (onStatus_ev_key s) = [(c1, d1), (c2, d2)]
      \<and> fired w3 = (fired w)(d1 \<mapsto> status_outcome c1 e1)
      \<and> waiters (events w3) (onStatus_ev_key s) = [(c2, d2)]
      \<and> fired w4 = (fired w)(d1 \<mapsto> status_outcome c1 e1, d2 \<mapsto> status_outcome c2 e2)
      \<and> waiters (events w4) (onStatus_ev_key s) = []
      \<and> (\<forall>s'. s' \<noteq> s \<longrightarrow>
            waiters (events w4) (onStatus_ev_key s') = waiters (events w) (onStatus_ev_key s'))"
    apply (rule exI[of _ ?d1], rule exI[of _ ?w1], rule exI[of _ ?d2], rule exI[of _ ?w2],
           rule exI[of _ ?w3], rule exI[of _ ?w4])
    apply (intro conjI)
              apply (simp add: waitStatus_eq)
             apply (simp add: waitStatus_eq)
    using s3 apply simp
    using s4 apply simp
          apply simp
         apply (rule q2)
        apply (rule f3)
       apply (rule q3)
      apply (rule f4)
     apply (rule q4)
    apply (rule other)
    done
qed

theorem status_waiters_fifo_witness:
  "waiters (events init_world) (onStatus_ev_key 5) = []
   \<and> fresh_deferreds init_world
   \<and> (\<exists>w2 w3 w4.
        snd (waitStatus 5 None (snd (waitStatus 5 (Some ''NetStream.Play.Start'') init_world))) = w2
      \<and> command_onStatus 0 5 (ANum 0) ANone (AObject [(''code'', AStr ''NetStream.Play.Stop'')]) w2 = (None, w3)
      \<and> command_onStatus 1 5 (ANum 0) ANone (AObject [(''code'', AStr ''NetStream.Play.Start'')]) w3 = (None, w4)
      \<and> fired w4 0 = Some (Inl (UnexpectedStatusError (AObject [(''code'', AStr ''NetStream.Play.Stop'')])))
      \<and> fired w4 1 = Some (Inr (RInfo (AObject [(''code'', AStr ''NetStream.Play.Start'')]))))"
proof -
  have a: "waiters (events init_world) (onStatus_ev_key 5) = []
           \<and> fresh_deferreds init_world"
    by (simp add: init_world_def waiters_def fresh_deferreds_def)
  have n: "next_deferred init_world = 0" by (simp add: init_world_def)
  from a n status_waiters_fifo[of init_world 5 "Some ''NetStream.Play.Start''" None
      0 "ANum 0" ANone "AObject [(''code'', AStr ''NetStream.Play.Stop'')]"
      1 "ANum 0" ANone "AObject [(''code'', AStr ''NetStream.Play.Start'')]"]
  show ?thesis
    by (auto simp: status_outcome_def waitStatus_eq)
qed

text \<open>
  C6, as amended. A status event on stream \<open>s\<close> pops the oldest waiter \<open>(code, d)\<close> and
  calls only \<open>d\<close>, leaving the rest of the queue queued (a mismatch is not retried against
  the next waiter). If the event has a code field and the expected code is the wildcard
  or equals it, \<open>d\<close> is fulfilled with the event; if the event has a code field and the
  expected code differs from it, \<open>d\<close> is failed with the unexpected-status error carrying
  the event; if the event has no code field, \<open>d\<close> is failed with the protocol-contract
  error, also when the expected code is the wildcard. If no waiter is queued, the
  unhandled-onStatus diagnostic is emitted and nothing else changes.
\<close>

theorem status_dispatch_outcome:
  "(waiters (events w) (onStatus_ev_key s) = (code, d) # rest \<and> fired w d = None \<longrightarrow>
      (\<exists>w1 outcome. command_onStatus ts s trans_id none info w = (None, w1)
          \<and> fired w1 = (fired w)(d \<mapsto> outcome)
          \<and> waiters (events w1) (onStatus_ev_key s) = rest
          \<and> effects w1 = effects w
          \<and> (\<forall>c. attr_code info = Some c \<and> (code = None \<or> (\<exists>e. code = Some e \<and> c = AStr e))
                 \<longrightarrow> outcome = Inr (RInfo info))
          \<and> (\<forall>c e. attr_code info = Some c \<and> code = Some e \<and> c \<noteq> AStr e
                 \<longrightarrow> outcome = Inl (UnexpectedStatusError info))
          \<and> (attr_code info = None \<longrightarrow> outcome = Inl ProtocolContractError)))
   \<and> (waiters (events w) (onStatus_ev_key s) = [] \<longrightarrow>
        command_onStatus ts s trans_id none info w =
          (None, w\<lparr>effects := effects w @ [Log WARNING (LogUnhandledOnStatus ts s info)]\<rparr>))"
proof (intro conjI impI)
  assume h: "waiters (events w) (onStatus_ev_key s) = (code, d) # rest \<and> fired w d = None"
  let ?o = "status_outcome code info"
  let ?w1 = "w\<lparr>events := (events w)\<lparr>event_callbacks :=
                 AList.update (onStatus_ev_key s) rest (event_callbacks (events w))\<rparr>,
              fired := (fired w)(d \<mapsto> ?o)\<rparr>"
  have run: "command_onStatus ts s trans_id none info w = (None, ?w1)"
    using h by (simp add: onStatus_hit)
  show "\<exists>w1 outcome. command_onStatus ts s trans_id none info w = (None, w1)
          \<and> fired w1 = (fired w)(d \<mapsto> outcome)
          \<and> waiters (events w1) (onStatus_ev_key s) = rest
          \<and> effects w1 = effects w
          \<and> (\<forall>c. attr_code info = Some c \<and> (code = None \<or> (\<exists>e. code = Some e \<and> c = AStr e))
                 \<longrightarrow> outcome = Inr (RInfo info))
          \<and> (\<forall>c e. attr_code info = Some c \<and> code = Some e \<and> c \<noteq> AStr e
                 \<longrightarrow> outcome = Inl (UnexpectedStatusError info))
          \<and> (attr_code info = None \<longrightarrow> outcome = Inl ProtocolContractError)"
    apply (rule exI[of _ ?w1], rule exI[of _ ?o])
    using run by (auto simp: waiters_update status_outcome_def)
next
  assume "waiters (events w) (onStatus_ev_key s) = []"
  then show "command_onStatus ts s trans_id none info w =
          (None, w\<lparr>effects := effects w @ [Log WARNING (LogUnhandledOnStatus ts s info)]\<rparr>)"
    by (simp add: command_onStatus_def dispatch_miss unhandledOnStatus_def emit_def)
qed

theorem status_dispatch_outcome_witness:
  "waiters (events w_wait) (onStatus_ev_key 5) = [(None, 0)] \<and> fired w_wait 0 = None
   \<and> (\<exists>w1. command_onStatus 0 5 (ANum 0) ANone (AObject [(''code'', AStr ''NetStream.Play.Start'')]) w_wait = (None, w1)
         \<and> fired w1 0 = Some (Inr (RInfo (AObject [(''code'', AStr ''NetStream.Play.Start'')]))))
   \<and> waiters (events init_world) (onStatus_ev_key 5) = []
   \<and> command_onStatus 0 5 (ANum 0) ANone (AObject [(''code'', AStr ''NetStream.Play.Start'')]) init_world =
       (None, init_world\<lparr>effects := effects init_world @
          [Log WARNING (LogUnhandledOnStatus 0 5 (AObject [(''code'', AStr ''NetStream.Play.Start'')]))]\<rparr>)"
proof -
  have a: "waiters (events w_wait) (onStatus_ev_key 5) = [(None, 0)] \<and> fired w_wait 0 = None"
    by (simp add: wait_defs)
  have b: "waiters (events init_world) (onStatus_ev_key 5) = []"
    by (simp add: init_world_def waiters_def)
  from a b
    status_dispatch_outcome[of w_wait 5 None 0 "[]" 0 "ANum 0" ANone
       "AObject [(''code'', AStr ''NetStream.Play.Start'')]"]
    status_dispatch_outcome[of init_world 5 None 0 "[]" 0 "ANum 0" ANone
       "AObject [(''code'', AStr ''NetStream.Play.Start'')]"]
  show ?thesis by auto
qed

text \<open>
  The claim C6 as it is written promises that a wildcard waiter is fulfilled. On a
  connection whose only waiter on stream 5 is a wildcard waiter, an event without a code
  field fails that waiter with the protocol-contract error.
\<close>

theorem wildcard_waiter_not_fulfilled:
  "waiters (events w_wait) (onStatus_ev_key 5) = [(None, 0)]
   \<and> fired w_wait 0 = None
   \<and> fired (snd (command_onStatus 0 5 (ANum 0) ANone (AObject [(''level'', AStr ''status'')]) w_wait)) 0
       = Some (Inl ProtocolContractError)
   \<and> fired (snd (command_onStatus 0 5 (ANum 0) ANone (AObject [(''level'', AStr ''status'')]) w_wait)) 0
       \<noteq> Some (Inr (RInfo (AObject [(''level'', AStr ''status'')])))"
  by (simp add: wait_defs command_onStatus_def dispatch_def se_pop_def d_errback_def d_callback_def)

section \<open>Shared objects\<close>

lemmas use_defs =
  w_use_def so0_def use_success_def useSharedObject_def new_SharedObject_def new_deferred_def
  encode_so_update_def so_flags_def sendMessage_def emit_def init_world_def Let_def

lemma w_use_so0: "shared_objs w_use ''so'' = Some so0"
  by (simp add: use_defs)

text \<open>
  C7, as amended. A \<^verbatim>\<open>USE_SUCCESS\<close> event with empty payload, handled by \<^verbatim>\<open>onEvent\<close>:
  while the ready future is not called, it is fulfilled with the object itself and
  nothing else changes; once the ready future is called, a further \<^verbatim>\<open>USE_SUCCESS\<close> is
  not ignored or logged: \<^verbatim>\<open>onEvent\<close> raises the future's already-called error, and the
  object and the rest of the state, the result of the ready future included, stay as
  they are.
\<close>

theorem use_success_fulfils_ready:
  "ev_type e = SO_EVENT_TYPE_USE_SUCCESS \<and> ev_data e = [] \<longrightarrow>
     (fired w (so_readyd so) = None \<longrightarrow>
        onEvent cd so e w =
          (None, so, w\<lparr>fired := (fired w)(so_readyd so \<mapsto> Inr (RSharedObject (so_id so)))\<rparr>))
   \<and> (fired w (so_readyd so) \<noteq> None \<longrightarrow>
        onEvent cd so e w = (Some AlreadyCalledError, so, w))"
  by (auto simp: onEvent_def onUseSuccess_def d_callback_def)

theorem use_success_fulfils_ready_witness:
  "ev_type use_success = SO_EVENT_TYPE_USE_SUCCESS \<and> ev_data use_success = []
   \<and> fired w_use (so_readyd so0) = None
   \<and> onEvent example_codec so0 use_success w_use =
       (None, so0, w_use\<lparr>fired := (fired w_use)(0 \<mapsto> Inr (RSharedObject 0))\<rparr>)
   \<and> fired (w_use\<lparr>fired := (fired w_use)(0 \<mapsto> Inr (RSharedObject 0))\<rparr>) (so_readyd so0) \<noteq> None
   \<and> onEvent example_codec so0 use_success (w_use\<lparr>fired := (fired w_use)(0 \<mapsto> Inr (RSharedObject 0))\<rparr>) =
       (Some AlreadyCalledError, so0, w_use\<lparr>fired := (fired w_use)(0 \<mapsto> Inr (RSharedObject 0))\<rparr>)"
proof -
  have a: "ev_type use_success = SO_EVENT_TYPE_USE_SUCCESS \<and> ev_data use_success = []"
    by (simp add: use_success_def)
  have b: "fired w_use (so_readyd so0) = None" "so_readyd so0 = 0" "so_id so0 = 0"
    by (simp_all add: use_defs)
  from a b
    use_success_fulfils_ready[of use_success w_use so0 example_codec]
    use_success_fulfils_ready[of use_success "w_use\<lparr>fired := (fired w_use)(0 \<mapsto> Inr (RSharedObject 0))\<rparr>"
       so0 example_codec]
  show ?thesis by simp
qed

text \<open>
  The claim C7 as it is written promises that a further \<^verbatim>\<open>USE_SUCCESS\<close> does not raise.
  For the shared object \<^verbatim>\<open>so\<close> in use on stream 1, the first \<^verbatim>\<open>USE_SUCCESS\<close> message is
  handled normally and the second one raises \<^verbatim>\<open>AlreadyCalledError\<close> out of \<^verbatim>\<open>doSharedObj\<close>.
\<close>

theorem second_use_success_raises:
  "fst (doSharedObj example_codec 0 1 ''so'' [use_success] w_use) = None
   \<and> fst (doSharedObj example_codec 0 1 ''so'' [use_success]
            (snd (doSharedObj example_codec 0 1 ''so'' [use_success] w_use)))
       = Some AlreadyCalledError"
  by (simp add: use_defs doSharedObj_def onEvent_def onUseSuccess_def d_callback_def)

text \<open>
  C8. \<^verbatim>\<open>useSharedObject\<close> with a name that is in the registry raises at once (the future
  it returns has failed) and leaves the whole state as it was: no message is sent, the
  registry is not modified. \<^verbatim>\<open>releaseSharedObject\<close> with a name that is not in the
  registry does the same. Neither reaches the call of the muxer, whatever the muxer
  would have done.
\<close>

theorem shared_object_misuse_fails_immediately:
  "(shared_objs w obj_name \<noteq> None \<longrightarrow>
      useSharedObject ms_id obj_name persistance now reply w =
        (Raised (SystemError ''Shared object %s already in use'' obj_name), w))
   \<and> (shared_objs w obj_name = None \<longrightarrow>
      releaseSharedObject ms_id obj_name now reply w =
        (Raised (SystemError ''Shared object %s does not exists'' obj_name), w))"
  by (simp add: useSharedObject_def releaseSharedObject_def)

theorem shared_object_misuse_fails_immediately_witness:
  "shared_objs w_use ''so'' \<noteq> None
   \<and> useSharedObject 1 ''so'' True 9 Accepted w_use =
       (Raised (SystemError ''Shared object %s already in use'' ''so''), w_use)
   \<and> shared_objs init_world ''so'' = None
   \<and> releaseSharedObject 1 ''so'' 9 Accepted init_world =
       (Raised (SystemError ''Shared object %s does not exists'' ''so''), init_world)"
proof -
  have a: "shared_objs w_use ''so'' \<noteq> None" by (simp add: w_use_so0)
  have b: "shared_objs init_world ''so'' = None" by (simp add: init_world_def)
  from a b
    shared_object_misuse_fails_immediately[of w_use "''so''" 1 True 9 Accepted]
    shared_object_misuse_fails_immediately[of init_world "''so''" 1 True 9 Accepted]
  show ?thesis by simp
qed

section \<open>Replies to incoming remote calls\<close>

lemma handler_chain_success:
  assumes "hs cmd = Some h" "h ts ms_id rest = Inr v"
  shows "unknownCommandType hs cmd ts ms_id (trans_id # rest) now w =
     (None, if truthy trans_id
            then w\<lparr>effects := effects w @
               [Sent now MSG_COMMAND ms_id
                  (Amf (AStr ''_result'' # trans_id # (case v of ATuple xs \<Rightarrow> xs | AList xs \<Rightarrow> xs | _ \<Rightarrow> [v])))]\<rparr>
            else w)"
  using assms
  by (simp add: unknownCommandType_def remote_handler_cb_def sendMessage_def emit_def encode_amf_def)

lemma handler_chain_failure:
  assumes "r = Inl f"
    "(hs cmd = Some h \<and> h ts ms_id rest = r) \<or> (hs cmd = None \<and> r = Inl (CallAbortedException [cmd]))"
  shows "unknownCommandType hs cmd ts ms_id (trans_id # rest) now w =
     (let w0 = (if hs cmd = None then emit (Log WARNING (LogUnknownMethod cmd rest)) w else w)
      in case remote_abort_handler_eb f w0 of
           (Inl f1, w1) \<Rightarrow> (None, snd (remote_handler_eb f1 ms_id trans_id now w1))
         | (Inr v, w1) \<Rightarrow> (None, w1))"
  using assms
  by (auto simp: unknownCommandType_def unknownRemoteCall_def split: prod.splits sum.splits)

text \<open>
  C9. An incoming remote call whose handler returns the value \<open>v\<close>: with a transaction id
  \<open>n > 0\<close>, exactly one message is sent, a command message on the call's stream whose
  body encodes \<^verbatim>\<open>_result\<close>, the same transaction id and the values, which are the elements
  of \<open>v\<close> when \<open>v\<close> is a tuple or a list and the one value \<open>v\<close> otherwise; with the
  transaction id 0 nothing is sent and nothing changes.
\<close>

theorem handler_success_reply:
  "hs cmd = Some h \<and> h ts ms_id rest = Inr v \<longrightarrow>
     (0 < n \<longrightarrow>
        (\<exists>vals. unknownCommandType hs cmd ts ms_id (ANum n # rest) now w =
             (None, w\<lparr>effects := effects w @
                [Sent now MSG_COMMAND ms_id (encode_amf (AStr ''_result'' # ANum n # vals))]\<rparr>)
           \<and> (\<forall>xs. v = ATuple xs \<or> v = AList xs \<longrightarrow> vals = xs)
           \<and> ((\<forall>xs. v \<noteq> ATuple xs \<and> v \<noteq> AList xs) \<longrightarrow> vals = [v])))
   \<and> unknownCommandType hs cmd ts ms_id (ANum 0 # rest) now w = (None, w)"
proof (intro impI conjI)
  assume h: "hs cmd = Some h \<and> h ts ms_id rest = Inr v"
  then show "unknownCommandType hs cmd ts ms_id (ANum 0 # rest) now w = (None, w)"
    by (simp add: handler_chain_success)
  assume n: "0 < n"
  let ?vals = "(case v of ATuple xs \<Rightarrow> xs | AList xs \<Rightarrow> xs | _ \<Rightarrow> [v])"
  show "\<exists>vals. unknownCommandType hs cmd ts ms_id (ANum n # rest) now w =
             (None, w\<lparr>effects := effects w @
                [Sent now MSG_COMMAND ms_id (encode_amf (AStr ''_result'' # ANum n # vals))]\<rparr>)
           \<and> (\<forall>xs. v = ATuple xs \<or> v = AList xs \<longrightarrow> vals = xs)
           \<and> ((\<forall>xs. v \<noteq> ATuple xs \<and> v \<noteq> AList xs) \<longrightarrow> vals = [v])"
    apply (rule exI[of _ ?vals])
    using h n by (cases v) (auto simp: handler_chain_success encode_amf_def)
qed

theorem handler_success_reply_witness:
  "example_handlers (AStr ''play'') = Some (\<lambda>ts ms_id args. Inr (AStr ''ok''))
   \<and> (0::int) < 1
   \<and> unknownCommandType example_handlers (AStr ''play'') 0 3 [ANum 1, AStr ''stream1''] 8 init_world =
       (None, init_world\<lparr>effects := effects init_world @
          [Sent 8 MSG_COMMAND 3 (encode_amf [AStr ''_result'', ANum 1, AStr ''ok''])]\<rparr>)
   \<and> unknownCommandType example_handlers (AStr ''play'') 0 3 [ANum 0, AStr ''stream1''] 8 init_world =
       (None, init_world)"
proof -
  have a: "example_handlers (AStr ''play'') = Some (\<lambda>ts ms_id args. Inr (AStr ''ok''))"
    by (simp add: example_handlers_def)
  from a handler_success_reply[of example_handlers "AStr ''play''" "\<lambda>ts ms_id args. Inr (AStr ''ok'')"
      0 3 "[AStr ''stream1'']" "AStr ''ok''" 1 8 init_world]
  show ?thesis by auto
qed

text \<open>
  C3. An incoming remote call whose handler fails with \<open>f\<close>, whatever the transaction
  id. If \<open>f\<close> is
  the call-aborted signal it is logged and nothing is sent. If \<open>f\<close> is a call-result
  error, an \<^verbatim>\<open>_error\<close> reply built from its wire arguments is sent, and if it is fatal the
  connection is closed after the reply was sent, otherwise it is not closed. For any other
  \<open>f\<close> an \<^verbatim>\<open>_error\<close> reply with the synthesized payload (code \<^verbatim>\<open>NetStream.Failed\<close>,
  level \<^verbatim>\<open>error\<close>, description) is sent and the connection is not closed. Nothing
  but the effects changes. When no handler is registered for the command, the fallback
  \<^verbatim>\<open>unknownRemoteCall\<close> logs the unknown method and fails with the call-aborted signal,
  which is logged, and nothing is sent.
\<close>

theorem handler_failure_reply:
  "(hs cmd = Some h \<and> h ts ms_id rest = Inl f \<longrightarrow>
     (\<forall>a. f = CallAbortedException a \<longrightarrow>
        unknownCommandType hs cmd ts ms_id (trans_id # rest) now w =
          (None, w\<lparr>effects := effects w @ [Log DEBUG (LogRemoteCallAborted f)]\<rparr>))
   \<and> (\<forall>error_args is_fatal. f = CallResultError error_args is_fatal \<longrightarrow>
        unknownCommandType hs cmd ts ms_id (trans_id # rest) now w =
          (None, w\<lparr>effects := effects w @
             [Log INFO (LogRemoteCallFailure f),
              Sent now MSG_COMMAND ms_id (encode_amf (AStr ''_error'' # trans_id # error_args))]
             @ (if is_fatal then [LoseConnection] else [])\<rparr>))
   \<and> ((\<forall>a. f \<noteq> CallAbortedException a) \<and> (\<forall>error_args is_fatal. f \<noteq> CallResultError error_args is_fatal) \<longrightarrow>
        unknownCommandType hs cmd ts ms_id (trans_id # rest) now w =
          (None, w\<lparr>effects := effects w @
             [Log INFO (LogRemoteCallFailure f),
              Sent now MSG_COMMAND ms_id
                (encode_amf [AStr ''_error'', trans_id, ANone,
                   AObject [(''code'', AStr ''NetStream.Failed''), (''level'', AStr ''error''),
                            (''description'', AStr (repr_failure f))]])]\<rparr>)))
   \<and> (hs cmd = None \<longrightarrow>
        unknownCommandType hs cmd ts ms_id (trans_id # rest) now w =
          (None, w\<lparr>effects := effects w @
             [Log WARNING (LogUnknownMethod cmd rest),
              Log DEBUG (LogRemoteCallAborted (CallAbortedException [cmd]))]\<rparr>))"
proof (intro conjI impI)
  assume h: "hs cmd = Some h \<and> h ts ms_id rest = Inl f"
  then have c: "unknownCommandType hs cmd ts ms_id (trans_id # rest) now w =
     (case remote_abort_handler_eb f w of
        (Inl f1, w1) \<Rightarrow> (None, snd (remote_handler_eb f1 ms_id trans_id now w1))
      | (Inr v, w1) \<Rightarrow> (None, w1))"
    using handler_chain_failure[of "Inl f" f hs cmd h ts ms_id rest trans_id now w] by simp
  show "\<forall>a. f = CallAbortedException a \<longrightarrow>
        unknownCommandType hs cmd ts ms_id (trans_id # rest) now w =
          (None, w\<lparr>effects := effects w @ [Log DEBUG (LogRemoteCallAborted f)]\<rparr>)"
    by (auto simp: c remote_abort_handler_eb_def emit_def)
  show "\<forall>error_args is_fatal. f = CallResultError error_args is_fatal \<longrightarrow>
        unknownCommandType hs cmd ts ms_id (trans_id # rest) now w =
          (None, w\<lparr>effects := effects w @
             [Log INFO (LogRemoteCallFailure f),
              Sent now MSG_COMMAND ms_id (encode_amf (AStr ''_error'' # trans_id # error_args))]
             @ (if is_fatal then [LoseConnection] else [])\<rparr>)"
    by (auto simp: c remote_abort_handler_eb_def remote_handler_eb_def sendMessage_def emit_def
        encode_amf_def)
  assume o: "(\<forall>a. f \<noteq> CallAbortedException a) \<and> (\<forall>error_args is_fatal. f \<noteq> CallResultError error_args is_fatal)"
  then show "unknownCommandType hs cmd ts ms_id (trans_id # rest) now w =
          (None, w\<lparr>effects := effects w @
             [Log INFO (LogRemoteCallFailure f),
              Sent now MSG_COMMAND ms_id
                (encode_amf [AStr ''_error'', trans_id, ANone,
                   AObject [(''code'', AStr ''NetStream.Failed''), (''level'', AStr ''error''),
                            (''description'', AStr (repr_failure f))]])]\<rparr>)"
    by (cases f)
       (auto simp: c remote_abort_handler_eb_def remote_handler_eb_def sendMessage_def emit_def
          encode_amf_def)
next
  assume n: "hs cmd = None"
  then show "unknownCommandType hs cmd ts ms_id (trans_id # rest) now w =
          (None, w\<lparr>effects := effects w @
             [Log WARNING (LogUnknownMethod cmd rest),
              Log DEBUG (LogRemoteCallAborted (CallAbortedException [cmd]))]\<rparr>)"
    using handler_chain_failure[of "Inl (CallAbortedException [cmd])" "CallAbortedException [cmd]"
        hs cmd undefined ts ms_id rest trans_id now w]
    by (simp add: remote_abort_handler_eb_def emit_def)
qed

theorem handler_failure_reply_witness:
  "example_handlers (AStr ''deny'') = Some (\<lambda>ts ms_id args. Inl (CallResultError [ANone, AStr ''denied''] True))
   \<and> unknownCommandType example_handlers (AStr ''deny'') 0 3 [ANum 1] 8 init_world =
       (None, init_world\<lparr>effects := effects init_world @
          [Log INFO (LogRemoteCallFailure (CallResultError [ANone, AStr ''denied''] True)),
           Sent 8 MSG_COMMAND 3 (encode_amf [AStr ''_error'', ANum 1, ANone, AStr ''denied'']),
           LoseConnection]\<rparr>)
   \<and> example_handlers (AStr ''skip'') = Some (\<lambda>ts ms_id args. Inl (CallAbortedException []))
   \<and> unknownCommandType example_handlers (AStr ''skip'') 0 3 [ANum 1] 8 init_world =
       (None, init_world\<lparr>effects := effects init_world @
          [Log DEBUG (LogRemoteCallAborted (CallAbortedException []))]\<rparr>)
   \<and> example_handlers (AStr ''nope'') = None
   \<and> unknownCommandType example_handlers (AStr ''nope'') 0 3 [ANum 1] 8 init_world =
       (None, init_world\<lparr>effects := effects init_world @
          [Log WARNING (LogUnknownMethod (AStr ''nope'') []),
           Log DEBUG (LogRemoteCallAborted (CallAbortedException [AStr ''nope'']))]\<rparr>)
   \<and> example_handlers (AStr ''boom'') = Some (\<lambda>ts ms_id args. Inl (OtherError ''ValueError()''))
   \<and> unknownCommandType example_handlers (AStr ''boom'') 0 3 [ANum 1] 8 init_world =
       (None, init_world\<lparr>effects := effects init_world @
          [Log INFO (LogRemoteCallFailure (OtherError ''ValueError()'')),
           Sent 8 MSG_COMMAND 3
             (encode_amf [AStr ''_error'', ANum 1, ANone,
                AObject [(''code'', AStr ''NetStream.Failed''), (''level'', AStr ''error''),
                         (''description'', AStr ''ValueError()'')]])]\<rparr>)"
proof -
  have a: "example_handlers (AStr ''deny'') = Some (\<lambda>ts ms_id args. Inl (CallResultError [ANone, AStr ''denied''] True))"
    "example_handlers (AStr ''skip'') = Some (\<lambda>ts ms_id args. Inl (CallAbortedException []))"
    "example_handlers (AStr ''boom'') = Some (\<lambda>ts ms_id args. Inl (OtherError ''ValueError()''))"
    "example_handlers (AStr ''nope'') = None"
    by (simp_all add: example_handlers_def)
  from a
    handler_failure_reply[of example_handlers "AStr ''deny''" "\<lambda>ts ms_id args. Inl (CallResultError [ANone, AStr ''denied''] True)"
      0 3 "[]" "CallResultError [ANone, AStr ''denied''] True" "ANum 1" 8 init_world]
    handler_failure_reply[of example_handlers "AStr ''skip''" "\<lambda>ts ms_id args. Inl (CallAbortedException [])"
      0 3 "[]" "CallAbortedException []" "ANum 1" 8 init_world]
    handler_failure_reply[of example_handlers "AStr ''boom''" "\<lambda>ts ms_id args. Inl (OtherError ''ValueError()'')"
      0 3 "[]" "OtherError ''ValueError()''" "ANum 1" 8 init_world]
    handler_failure_reply[of example_handlers "AStr ''nope''" "\<lambda>ts ms_id args. Inl (OtherError ''ValueError()'')"
      0 3 "[]" "OtherError ''ValueError()''" "ANum 1" 8 init_world]
  show ?thesis by auto
qed

section \<open>Transaction ids\<close>

text \<open>
  C4. After any history \<open>xs\<close> of a fresh connection, a \<^verbatim>\<open>callRemote\<close> on stream \<open>s\<close> is
  allocated the transaction id \<open>n\<close>, one more than the number of \<^verbatim>\<open>callRemote\<close> on \<open>s\<close>
  in \<open>xs\<close>: the n-th tracked call on \<open>s\<close> gets \<open>n\<close>. The id is the one in the message
  sent; no pending entry of \<open>s\<close> had it (no reuse); the future returned is registered
  under \<open>(s, n)\<close>; the next ids of the other streams are as before. \<^verbatim>\<open>signalRemote\<close>
  sends its message with transaction id 0, returns no future and changes nothing else,
  so it registers no pending entry.
\<close>

theorem nth_tracked_call_gets_n:
  "(\<exists>w1. callRemote s cmd args (run cd hs xs init_world) =
            (Some (next_deferred (run cd hs xs init_world)), w1)
        \<and> effects w1 = effects (run cd hs xs init_world) @
            [Sent 0 MSG_COMMAND s (encode_amf (cmd # ANum (1 + int (length (filter (calls_on s) xs))) # args))]
        \<and> pending_entry (call_tracker (run cd hs xs init_world)) s (1 + int (length (filter (calls_on s) xs))) = None
        \<and> pending_entry (call_tracker w1) s (1 + int (length (filter (calls_on s) xs)))
            = Some (next_deferred (run cd hs xs init_world))
        \<and> (\<forall>s'. s' \<noteq> s \<longrightarrow>
              next_counter (call_tracker w1) s' = next_counter (call_tracker (run cd hs xs init_world)) s'))
   \<and> signalRemote s cmd args (run cd hs xs init_world) =
       (None, (run cd hs xs init_world)\<lparr>effects := effects (run cd hs xs init_world) @
          [Sent 0 MSG_COMMAND s (encode_amf (cmd # ANum 0 # args))]\<rparr>)"
proof -
  let ?w = "run cd hs xs init_world"
  let ?n = "1 + int (length (filter (calls_on s) xs))"
  have n: "next_counter (call_tracker ?w) s = ?n"
    by (simp add: run_next_counter init_next_counter)
  have b: "ids_below ?w" by (rule run_ids_below[OF init_ids_below])
  have free: "pending_entry (call_tracker ?w) s ?n = None"
  proof (cases "pending_entry (call_tracker ?w) s ?n")
    case (Some d)
    then have "?n < next_counter (call_tracker ?w) s" using b by (auto simp: ids_below_def)
    then show ?thesis using n by simp
  qed simp
  have pos: "?n \<noteq> 0" by simp
  show ?thesis
    apply (intro conjI)
     apply (rule exI[of _ "snd (callRemote s cmd args ?w)"])
    using n free pos
     apply (simp add: callRemote_eq Let_def pending_entry_push next_counter_next_trans)
    apply (rule signalRemote_eq)
    done
qed

theorem nth_tracked_call_gets_n_witness:
  "\<exists>w1. callRemote 3 (AStr ''play'') []
            (run example_codec example_handlers
               [CallRemote 3 (AStr ''a'') [], CallRemote 4 (AStr ''b'') [], CallRemote 3 (AStr ''c'') []]
               init_world) = (Some 3, w1)
        \<and> pending_entry (call_tracker w1) 3 3 = Some 3
        \<and> next_counter (call_tracker w1) 4 = 2"
proof -
  let ?xs = "[CallRemote 3 (AStr ''a'') [], CallRemote 4 (AStr ''b'') [], CallRemote 3 (AStr ''c'') []]"
  have a: "next_deferred (run example_codec example_handlers ?xs init_world) = 3"
    "next_counter (call_tracker (run example_codec example_handlers ?xs init_world)) 4 = 2"
    by (simp_all add: callRemote_eq Let_def next_counter_next_trans init_next_counter)
       (simp_all add: init_world_def)
  have b: "(4::int) \<noteq> 3" by simp
  from a b nth_tracked_call_gets_n[of 3 "AStr ''play''" "[]" example_codec example_handlers ?xs]
  show ?thesis by auto
qed

section \<open>The shared-object registry\<close>

lemma onEvents_in_use: "name \<in> dom (shared_objs w) \<Longrightarrow> name \<in> dom (shared_objs (snd (onEvents cd n so es w)))"
  by (rule onEvents_pres[where P="\<lambda>w'. name \<in> dom (shared_objs w')"];
      (rule onEvent_pres)?; auto)

lemma connectionLost_shared_objs:
  "shared_objs (snd (EventDispatchProtocol_connectionLost r w)) = shared_objs w"
  by (rule EventDispatchProtocol_connectionLost_pres
        [where P="\<lambda>w'. shared_objs w' = shared_objs w"]) simp_all

lemma unknownCommandType_shared_objs:
  "shared_objs (snd (unknownCommandType hs cmd ts ms_id args now w)) = shared_objs w"
  by (auto simp: unknownCommandType_def unknownRemoteCall_def remote_handler_cb_def
      remote_abort_handler_eb_def remote_handler_eb_def sendMessage_def emit_def Let_def
      split: list.splits option.splits prod.splits sum.splits failure.splits if_splits)

lemma step_shared_objs:
  "shared_objs (step cd hs x w) =
     (case x of
        DoSharedObj ts ms_id n es \<Rightarrow> shared_objs (snd (doSharedObj cd ts ms_id n es w))
      | UseSharedObject ms_id n p now reply \<Rightarrow> shared_objs (snd (useSharedObject ms_id n p now reply w))
      | ReleaseSharedObject ms_id n now reply \<Rightarrow> shared_objs (snd (releaseSharedObject ms_id n now reply w))
      | _ \<Rightarrow> shared_objs w)"
  apply (cases x)
  apply (simp_all add: connectionLost_shared_objs unknownCommandType_shared_objs
      doCommand_def callLater_def emit_def
      reactor_run_def call_wrapper_def command__result_def command__error_def d_callback_def d_errback_def
      unexpectedCallResult_def unexpectedCallError_def command_onStatus_def dispatch_def
      unhandledOnStatus_def signalRemote_eq callRemote_eq
      waitStatus_def se_wait_def new_deferred_def Let_def
      split: list.splits option.splits prod.splits if_splits)
  done

lemma step_in_use:
  assumes "name \<in> dom (shared_objs w)" "\<not> releases name x"
  shows "name \<in> dom (shared_objs (step cd hs x w))"
proof (cases x)
  case (DoSharedObj ts ms_id n es)
  then show ?thesis using assms onEvents_in_use[of name w cd n _ es]
    by (auto simp: step_shared_objs doSharedObj_def unknownSharedObject_def emit_def
        simp del: step.simps split: option.splits)
next
  case (UseSharedObject ms_id n p now reply)
  then show ?thesis using assms
    by (auto simp: step_shared_objs useSharedObject_def new_SharedObject_def new_deferred_def
        sendMessage_def emit_def Let_def simp del: step.simps split: muxer_reply.splits)
next
  case (ReleaseSharedObject ms_id n now reply)
  then show ?thesis using assms
    by (auto simp: step_shared_objs releaseSharedObject_def
        sendMessage_def emit_def Let_def simp del: step.simps split: option.splits muxer_reply.splits)
qed (use assms in \<open>simp_all add: step_shared_objs del: step.simps\<close>)

lemma run_in_use:
  "name \<in> dom (shared_objs w) \<Longrightarrow> filter (releases name) xs = [] \<Longrightarrow>
   name \<in> dom (shared_objs (run cd hs xs w))"
proof (induction xs arbitrary: w)
  case Nil
  then show ?case by simp
next
  case (Cons x xs)
  from Cons.prems(2) have nr: "\<not> releases name x" and rest: "filter (releases name) xs = []"
    by (auto split: if_splits)
  have "name \<in> dom (shared_objs (step cd hs x w))"
    by (rule step_in_use[OF Cons.prems(1) nr])
  then have "name \<in> dom (shared_objs (run cd hs xs (step cd hs x w)))"
    using rest by (rule Cons.IH)
  then show ?case by simp
qed

lemma sendMessage_frame [simp]:
  "shared_objs (sendMessage ts mt ms b w) = shared_objs w"
  "fired (sendMessage ts mt ms b w) = fired w"
  "next_deferred (sendMessage ts mt ms b w) = next_deferred w"
  "effects (sendMessage ts mt ms b w) = effects w @ [Sent ts mt ms b]"
  by (simp_all add: sendMessage_def emit_def)

lemma useSharedObject_free:
  "shared_objs w name = None \<Longrightarrow>
   useSharedObject ms_id name p now reply w =
     ((case reply of Refused f \<Rightarrow> Raised f | Accepted \<Rightarrow> Awaiting (next_deferred w)),
      sendMessage now MSG_SO ms_id
        (encode_so_update name (so_flags p) [\<lparr>ev_type = SO_EVENT_TYPE_USE, ev_data = []\<rparr>])
        (w\<lparr>next_deferred := Suc (Suc (Suc (next_deferred w))), next_object := Suc (next_object w),
           shared_objs := (shared_objs w)(name \<mapsto>
             \<lparr>so_id = next_object w, so_name = name, so_readyd = next_deferred w,
              so_deleted = Suc (next_deferred w), so_changed = Suc (Suc (next_deferred w)),
              so_persistance = p\<rparr>)\<rparr>))"
  by (simp add: useSharedObject_def new_SharedObject_def new_deferred_def Let_def
      split: muxer_reply.splits)

lemma releaseSharedObject_used:
  "shared_objs w name = Some so \<Longrightarrow>
   releaseSharedObject ms_id name now reply w =
     ((case reply of Refused f \<Rightarrow> Raised f | Accepted \<Rightarrow> Returned ()),
      sendMessage now MSG_SO ms_id
        (encode_so_update name (so_flags (so_persistance so)) [\<lparr>ev_type = SO_EVENT_TYPE_RELEASE, ev_data = []\<rparr>])
        (w\<lparr>shared_objs := (shared_objs w)(name := None)\<rparr>))"
  by (simp add: releaseSharedObject_def Let_def split: muxer_reply.splits)

text \<open>
  C10. \<^verbatim>\<open>useSharedObject\<close> on a free name adds the object to the registry before it calls
  the muxer: whether the muxer's \<^verbatim>\<open>sendMessage\<close> returns or raises, the state after the
  call holds the registry entry, so when the send raises the name is in use although
  the subscription failed. When the send returns, the generator is left waiting for the
  object's ready future, which is not called. In both cases a second \<^verbatim>\<open>useSharedObject\<close>
  on the name fails, and the name stays in the registry through every history that does
  not release it, whether or not \<^verbatim>\<open>USE_SUCCESS\<close> ever arrives. \<^verbatim>\<open>releaseSharedObject\<close>
  removes the name before it calls the muxer: whether the send returns or raises, the
  name is free after the call and can be used again at once.
\<close>

theorem registry_updated_before_send:
  "(shared_objs w name = None \<longrightarrow>
      (\<exists>so w1.
          useSharedObject ms_id name p now reply w =
            ((case reply of Refused f \<Rightarrow> Raised f | Accepted \<Rightarrow> Awaiting (so_readyd so)), w1)
        \<and> shared_objs w1 = (shared_objs w)(name \<mapsto> so)
        \<and> effects w1 = effects w @
            [Sent now MSG_SO ms_id
               (encode_so_update name (so_flags p) [\<lparr>ev_type = SO_EVENT_TYPE_USE, ev_data = []\<rparr>])]
        \<and> (fresh_deferreds w \<longrightarrow> fired w1 (so_readyd so) = None)
        \<and> useSharedObject ms_id2 name p2 now2 reply2 w1 =
            (Raised (SystemError ''Shared object %s already in use'' name), w1)
        \<and> (\<forall>xs. filter (releases name) xs = [] \<longrightarrow> name \<in> dom (shared_objs (run cd hs xs w1)))))
   \<and> (\<forall>so. shared_objs w name = Some so \<longrightarrow>
      (\<exists>w1.
          releaseSharedObject ms_id name now reply w =
            ((case reply of Refused f \<Rightarrow> Raised f | Accepted \<Rightarrow> Returned ()), w1)
        \<and> shared_objs w1 = (shared_objs w)(name := None)
        \<and> effects w1 = effects w @
            [Sent now MSG_SO ms_id
               (encode_so_update name (so_flags (so_persistance so))
                  [\<lparr>ev_type = SO_EVENT_TYPE_RELEASE, ev_data = []\<rparr>])]
        \<and> fst (useSharedObject ms_id2 name p2 now2 Accepted w1) = Awaiting (next_deferred w1)))"
proof (intro conjI impI allI)
  assume free: "shared_objs w name = None"
  let ?so = "\<lparr>so_id = next_object w, so_name = name, so_readyd = next_deferred w,
              so_deleted = Suc (next_deferred w), so_changed = Suc (Suc (next_deferred w)),
              so_persistance = p\<rparr>"
  let ?w0 = "w\<lparr>next_deferred := Suc (Suc (Suc (next_deferred w))), next_object := Suc (next_object w),
           shared_objs := (shared_objs w)(name \<mapsto> ?so)\<rparr>"
  let ?w1 = "sendMessage now MSG_SO ms_id
                 (encode_so_update name (so_flags p) [\<lparr>ev_type = SO_EVENT_TYPE_USE, ev_data = []\<rparr>]) ?w0"
  have in_use: "name \<in> dom (shared_objs ?w1)" by simp
  have stays: "\<forall>xs. filter (releases name) xs = [] \<longrightarrow> name \<in> dom (shared_objs (run cd hs xs ?w1))"
    using run_in_use[OF in_use] by blast
  have again: "useSharedObject ms_id2 name p2 now2 reply2 ?w1 =
            (Raised (SystemError ''Shared object %s already in use'' name), ?w1)"
    by (simp add: useSharedObject_def)
  have run: "useSharedObject ms_id name p now reply w =
            ((case reply of Refused f \<Rightarrow> Raised f | Accepted \<Rightarrow> Awaiting (so_readyd ?so)), ?w1)"
    using free by (simp add: useSharedObject_free split: muxer_reply.splits)
  show "\<exists>so w1.
          useSharedObject ms_id name p now reply w =
            ((case reply of Refused f \<Rightarrow> Raised f | Accepted \<Rightarrow> Awaiting (so_readyd so)), w1)
        \<and> shared_objs w1 = (shared_objs w)(name \<mapsto> so)
        \<and> effects w1 = effects w @
            [Sent now MSG_SO ms_id
               (encode_so_update name (so_flags p) [\<lparr>ev_type = SO_EVENT_TYPE_USE, ev_data = []\<rparr>])]
        \<and> (fresh_deferreds w \<longrightarrow> fired w1 (so_readyd so) = None)
        \<and> useSharedObject ms_id2 name p2 now2 reply2 w1 =
            (Raised (SystemError ''Shared object %s already in use'' name), w1)
        \<and> (\<forall>xs. filter (releases name) xs = [] \<longrightarrow> name \<in> dom (shared_objs (run cd hs xs w1)))"
    apply (rule exI[of _ ?so], rule exI[of _ ?w1])
    apply (intro conjI)
         apply (rule run)
        apply simp
       apply simp
      apply (simp add: fresh_deferreds_def)
     apply (rule again)
    apply (rule stays)
    done
next
  fix so assume used: "shared_objs w name = Some so"
  let ?w0 = "w\<lparr>shared_objs := (shared_objs w)(name := None)\<rparr>"
  let ?w1 = "sendMessage now MSG_SO ms_id
                 (encode_so_update name (so_flags (so_persistance so))
                    [\<lparr>ev_type = SO_EVENT_TYPE_RELEASE, ev_data = []\<rparr>]) ?w0"
  have free: "shared_objs ?w1 name = None" by simp
  show "\<exists>w1.
          releaseSharedObject ms_id name now reply w =
            ((case reply of Refused f \<Rightarrow> Raised f | Accepted \<Rightarrow> Returned ()), w1)
        \<and> shared_objs w1 = (shared_objs w)(name := None)
        \<and> effects w1 = effects w @
            [Sent now MSG_SO ms_id
               (encode_so_update name (so_flags (so_persistance so))
                  [\<lparr>ev_type = SO_EVENT_TYPE_RELEASE, ev_data = []\<rparr>])]
        \<and> fst (useSharedObject ms_id2 name p2 now2 Accepted w1) = Awaiting (next_deferred w1)"
    apply (rule exI[of _ ?w1])
    using used useSharedObject_free[OF free, of ms_id2 p2 now2 Accepted]
    by (simp add: releaseSharedObject_used)
qed

theorem registry_updated_before_send_witness:
  "shared_objs init_world ''so'' = None \<and> fresh_deferreds init_world
   \<and> (\<exists>w1. useSharedObject 1 ''so'' False 0 (Refused (OtherError ''IOError()'')) init_world =
              (Raised (OtherError ''IOError()''), w1)
          \<and> ''so'' \<in> dom (shared_objs w1)
          \<and> useSharedObject 2 ''so'' True 5 Accepted w1 =
              (Raised (SystemError ''Shared object %s already in use'' ''so''), w1)
          \<and> ''so'' \<in> dom (shared_objs (run example_codec example_handlers
                [ConnectionLost ConnectionDone, DoSharedObj 0 1 ''so'' [use_success]] w1)))
   \<and> filter (releases ''so'') [ConnectionLost ConnectionDone, DoSharedObj 0 1 ''so'' [use_success]] = []
   \<and> shared_objs w_use ''so'' = Some so0
   \<and> (\<exists>w1. releaseSharedObject 1 ''so'' 6 (Refused (OtherError ''IOError()'')) w_use =
              (Raised (OtherError ''IOError()''), w1)
          \<and> shared_objs w1 ''so'' = None
          \<and> fst (useSharedObject 1 ''so'' False 7 Accepted w1) = Awaiting (next_deferred w1))"
proof -
  let ?xs = "[ConnectionLost ConnectionDone, DoSharedObj 0 1 ''so'' [use_success]]"
  let ?r = "Refused (OtherError ''IOError()'')"
  have a: "shared_objs init_world ''so'' = None" "fresh_deferreds init_world"
    by (simp_all add: init_world_def fresh_deferreds_def)
  have b: "shared_objs w_use ''so'' = Some so0" by (rule w_use_so0)
  have c: "filter (releases ''so'') ?xs = []" by simp
  have "\<exists>so w1.
          useSharedObject 1 ''so'' False 0 ?r init_world =
            ((case ?r of Refused f \<Rightarrow> Raised f | Accepted \<Rightarrow> Awaiting (so_readyd so)), w1)
        \<and> shared_objs w1 = (shared_objs init_world)(''so'' \<mapsto> so)
        \<and> effects w1 = effects init_world @
            [Sent 0 MSG_SO 1
               (encode_so_update ''so'' (so_flags False) [\<lparr>ev_type = SO_EVENT_TYPE_USE, ev_data = []\<rparr>])]
        \<and> (fresh_deferreds init_world \<longrightarrow> fired w1 (so_readyd so) = None)
        \<and> useSharedObject 2 ''so'' True 5 Accepted w1 =
            (Raised (SystemError ''Shared object %s already in use'' ''so''), w1)
        \<and> (\<forall>xs. filter (releases ''so'') xs = [] \<longrightarrow>
              ''so'' \<in> dom (shared_objs (run example_codec example_handlers xs w1)))"
    using a(1)
      registry_updated_before_send[where w=init_world and name="''so''" and ms_id=1 and p=False
        and now=0 and reply="?r" and ?ms_id2.0=2 and ?p2.0=True and ?now2.0=5 and ?reply2.0=Accepted
        and cd=example_codec and hs=example_handlers, THEN conjunct1]
    by (rule rev_mp)
  then obtain so w1 where h:
    "useSharedObject 1 ''so'' False 0 ?r init_world =
            ((case ?r of Refused f \<Rightarrow> Raised f | Accepted \<Rightarrow> Awaiting (so_readyd so)), w1)"
    "shared_objs w1 = (shared_objs init_world)(''so'' \<mapsto> so)"
    "useSharedObject 2 ''so'' True 5 Accepted w1 =
            (Raised (SystemError ''Shared object %s already in use'' ''so''), w1)"
    "\<forall>xs. filter (releases ''so'') xs = [] \<longrightarrow>
              ''so'' \<in> dom (shared_objs (run example_codec example_handlers xs w1))"
    by blast
  from h(4) c have stays: "''so'' \<in> dom (shared_objs (run example_codec example_handlers ?xs w1))"
    by blast
  have u: "\<exists>w1. useSharedObject 1 ''so'' False 0 ?r init_world = (Raised (OtherError ''IOError()''), w1)
          \<and> ''so'' \<in> dom (shared_objs w1)
          \<and> useSharedObject 2 ''so'' True 5 Accepted w1 =
              (Raised (SystemError ''Shared object %s already in use'' ''so''), w1)
          \<and> ''so'' \<in> dom (shared_objs (run example_codec example_handlers ?xs w1))"
    apply (rule exI[of _ w1])
    using h(1,2,3) stays by simp
  have "\<forall>so. shared_objs w_use ''so'' = Some so \<longrightarrow>
      (\<exists>w1.
          releaseSharedObject 1 ''so'' 6 ?r w_use =
            ((case ?r of Refused f \<Rightarrow> Raised f | Accepted \<Rightarrow> Returned ()), w1)
        \<and> shared_objs w1 = (shared_objs w_use)(''so'' := None)
        \<and> effects w1 = effects w_use @
            [Sent 6 MSG_SO 1
               (encode_so_update ''so'' (so_flags (so_persistance so))
                  [\<lparr>ev_type = SO_EVENT_TYPE_RELEASE, ev_data = []\<rparr>])]
        \<and> fst (useSharedObject 1 ''so'' False 7 Accepted w1) = Awaiting (next_deferred w1))"
    by (rule registry_updated_before_send[where w=w_use and name="''so''" and ms_id=1 and p=False
        and now=6 and reply="?r" and ?ms_id2.0=1 and ?p2.0=False and ?now2.0=7 and ?reply2.0=Accepted
        and cd=example_codec and hs=example_handlers, THEN conjunct2])
  with b obtain w2 where k:
    "releaseSharedObject 1 ''so'' 6 ?r w_use =
            ((case ?r of Refused f \<Rightarrow> Raised f | Accepted \<Rightarrow> Returned ()), w2)"
    "shared_objs w2 = (shared_objs w_use)(''so'' := None)"
    "fst (useSharedObject 1 ''so'' False 7 Accepted w2) = Awaiting (next_deferred w2)"
    by blast
  have r: "\<exists>w1. releaseSharedObject 1 ''so'' 6 ?r w_use = (Raised (OtherError ''IOError()''), w1)
          \<and> shared_objs w1 ''so'' = None
          \<and> fst (useSharedObject 1 ''so'' False 7 Accepted w1) = Awaiting (next_deferred w1)"
    apply (rule exI[of _ w2])
    using k by simp
  show ?thesis
    using a b c u r by (intro conjI)
qed


end
